theory Spec2Isabelle
  imports Main
begin

section \<open>Template operations of the mail message (msg\_template.go)\<close>

text \<open>
  The file \<^verbatim>\<open>msg_template.go\<close> defines eight methods of \<^verbatim>\<open>*Msg\<close> and two helper
  functions. Each renders a template into a buffer and then hands the buffer to the
  message. The embedding below follows the Go text branch by branch:
  \<^item> a Go \<^verbatim>\<open>error\<close> result is an \<open>error option\<close> (\<open>None\<close> is \<^verbatim>\<open>nil\<close>), a
    \<^verbatim>\<open>(*File, error)\<close> result is a sum \<open>error + File\<close>;
  \<^item> the receiver \<^verbatim>\<open>m\<close> is passed in and the updated message is returned;
  \<^item> a template pointer is an \<open>option\<close> (\<open>None\<close> is the nil pointer);
  \<^item> \<^verbatim>\<open>tpl.Execute\<close> belongs to Go's standard library. It evaluates the template on
    \<^verbatim>\<open>data\<close>, an \<^verbatim>\<open>interface{}\<close>, and runs the methods of \<^verbatim>\<open>data\<close> that the template
    names. Such a method can hold the pointer \<^verbatim>\<open>m\<close> and change the message, and it can
    have effects of its own. So \<open>Execute\<close> is carried by the template value as a
    function that takes and returns the message and a state \<open>'w\<close> (whatever else the
    engine and the data touch, for instance the call log of a spy engine). The
    operations thread both, so that a call of \<^verbatim>\<open>Execute\<close> is observable, its absence
    can be stated, and what it does to the message is part of the result;
  \<^item> \<^verbatim>\<open>Execute\<close> is taken to return: a template that panics or never returns is
    outside the model.
\<close>

subsection \<open>Errors\<close>

text \<open>
  An error value is represented by the call that built it: \<^verbatim>\<open>errors.New(text)\<close> or
  \<^verbatim>\<open>fmt.Errorf(format, err)\<close> with a single error operand.
\<close>

datatype error = errors_New string | fmt_Errorf string error

text \<open>
  \<^verbatim>\<open>fmt.Errorf\<close> returns an error that unwraps to its operand when the format holds the
  verb \<^verbatim>\<open>%w\<close>. The scan reads a verb as the character after a percent sign (no flags
  or widths, which the formats of this file do not use); \<^verbatim>\<open>%%\<close> is a literal percent.
\<close>

fun has_wrap_verb :: "string \<Rightarrow> bool" where
  "has_wrap_verb (a # b # r) =
     (if a = CHR ''%'' then (if b = CHR ''w'' then True else has_wrap_verb r)
      else has_wrap_verb (b # r))"
| "has_wrap_verb _ = False"

fun Unwrap :: "error \<Rightarrow> error option" where
  "Unwrap (errors_New s) = None"
| "Unwrap (fmt_Errorf f e) = (if has_wrap_verb f then Some e else None)"

text \<open>
  \<^verbatim>\<open>errors.Is\<close> walks the chain of \<open>Unwrap\<close> and compares each link with the target.
  Go compares the pointers of \<^verbatim>\<open>errors.New\<close> values; the model compares the values,
  which agrees with Go whenever the target is a link of the chain itself.
\<close>

fun Is :: "error \<Rightarrow> error \<Rightarrow> bool" where
  "Is (errors_New s) target = (errors_New s = target)"
| "Is (fmt_Errorf f e) target =
     (fmt_Errorf f e = target \<or> (has_wrap_verb f \<and> Is e target))"

subsection \<open>The message and its parts\<close>

text \<open>
  The option types are declared outside this file and are opaque here.
\<close>

typedecl PartOption
typedecl FileOption

type_synonym ContentType = string

text \<open>
  The constants \<^verbatim>\<open>TypeTextPlain\<close> and \<^verbatim>\<open>TypeTextHTML\<close> are declared outside this file;
  their values are the ones the comments of \<^verbatim>\<open>SetBodyTextTemplate\<close> and
  \<^verbatim>\<open>SetBodyHTMLTemplate\<close> give (lines 19-20 and 50-51).
\<close>

definition TypeTextPlain :: ContentType where
  "TypeTextPlain = ''text/plain''"

definition TypeTextHTML :: ContentType where
  "TypeTextHTML = ''text/html''"

text \<open>
  Modelled from the spec: the declarations of the content producer, of the body part,
  of \<^verbatim>\<open>File\<close> and of \<^verbatim>\<open>Msg\<close> are not in \<^verbatim>\<open>msg_template.go\<close>. A content producer is a
  deferred "write N bytes to sink S"; a sink is the sequence of bytes written to it so
  far. A body part is a content producer bound to a declared content type, with its
  options. A File has a declared name, a content source and presentation options. The
  document owns four collections: the primary body (at most one), the alternative
  bodies, the attachments and the embeds (ordered sequences). The fields
  \<open>attachments\<close> and \<open>embeds\<close> are named in the source (lines 163 and 219).
\<close>

type_synonym sink = string
type_synonym producer = "sink \<Rightarrow> sink"

record Part =
  contentType :: ContentType
  writeFunc :: producer
  partOpts :: "PartOption list"

record File =
  Name :: string
  Writer :: producer
  fileOpts :: "FileOption list"

record Msg =
  body :: "Part option"
  alternatives :: "Part list"
  attachments :: "File list"
  embeds :: "File list"

text \<open>
  Modelled from the spec: \<^verbatim>\<open>writeFuncFromBuffer\<close> is not in \<^verbatim>\<open>msg_template.go\<close>. It
  wraps a rendered buffer into a producer whose output is byte-identical to the buffer
  at wrap time on every invocation.
\<close>

definition writeFuncFromBuffer :: "string \<Rightarrow> producer" where
  "writeFuncFromBuffer buffer = (\<lambda>w. w @ buffer)"

text \<open>
  Modelled from the spec: \<^verbatim>\<open>SetBodyWriter\<close> is not in \<^verbatim>\<open>msg_template.go\<close>. It replaces
  the document's single primary body slot (last write wins).
\<close>

definition SetBodyWriter :: "ContentType \<Rightarrow> producer \<Rightarrow> PartOption list \<Rightarrow> Msg \<Rightarrow> Msg" where
  "SetBodyWriter ct fn opts m =
     m\<lparr>body := Some \<lparr>contentType = ct, writeFunc = fn, partOpts = opts\<rparr>\<rparr>"

text \<open>
  Modelled from the spec: \<^verbatim>\<open>AddAlternativeWriter\<close> is not in \<^verbatim>\<open>msg_template.go\<close>. It
  appends to the ordered alternative-body sequence.
\<close>

definition AddAlternativeWriter :: "ContentType \<Rightarrow> producer \<Rightarrow> PartOption list \<Rightarrow> Msg \<Rightarrow> Msg" where
  "AddAlternativeWriter ct fn opts m =
     m\<lparr>alternatives := alternatives m @ [\<lparr>contentType = ct, writeFunc = fn, partOpts = opts\<rparr>]\<rparr>"

text \<open>
  Modelled from the spec: \<^verbatim>\<open>appendFile\<close> is not in \<^verbatim>\<open>msg_template.go\<close>. It appends the
  File, with the options given, at the tail of the sequence it is handed, and returns
  the new sequence (the caller stores it, lines 163, 191, 219 and 247).
\<close>

definition appendFile :: "File list \<Rightarrow> File \<Rightarrow> FileOption list \<Rightarrow> File list" where
  "appendFile files file opts = files @ [file\<lparr>fileOpts := fileOpts file @ opts\<rparr>]"

subsection \<open>Declarations of the package that this file uses\<close>

text \<open>
  The two message texts and \<^verbatim>\<open>fileFromReader\<close> are declared elsewhere in the package.
  Nothing below depends on what they are, so they are parameters: \<open>errTplPointerNil\<close>
  is the text passed to \<^verbatim>\<open>errors.New\<close>, \<open>errTplExecuteFailed\<close> the format passed to
  \<^verbatim>\<open>fmt.Errorf\<close>, and \<open>fileFromReader\<close> builds a File from a name and the bytes of a
  reader, or fails.
\<close>

record pkg =
  errTplPointerNil :: string
  errTplExecuteFailed :: string
  fileFromReader :: "string \<Rightarrow> string \<Rightarrow> error + File"

subsection \<open>Templates\<close>

text \<open>
  A \<^verbatim>\<open>*text/template.Template\<close> and a \<^verbatim>\<open>*html/template.Template\<close> are two different
  types, each with its own \<^verbatim>\<open>Execute(wr, data)\<close>. \<open>Execute\<close> takes the buffer it writes
  to, the data, the message and the engine state, and returns the buffer after the call
  (it may hold partial output when the call fails), the error, the message as the
  methods of the data left it, and the new engine state.
\<close>

datatype ('d, 'w) tt_Template =
  tt_Template
    (tt_Execute: "string \<Rightarrow> 'd \<Rightarrow> Msg \<Rightarrow> 'w \<Rightarrow> (string \<times> error option) \<times> Msg \<times> 'w")

datatype ('d, 'w) ht_Template =
  ht_Template
    (ht_Execute: "string \<Rightarrow> 'd \<Rightarrow> Msg \<Rightarrow> 'w \<Rightarrow> (string \<times> error option) \<times> Msg \<times> 'w")

text \<open>
  The message as \<open>Execute\<close> leaves it, when the operation gets as far as calling it:
  for a nil template there is no call and the message is the one given.
\<close>

definition Msg_after_tt_Execute :: "('d, 'w) tt_Template option \<Rightarrow> 'd \<Rightarrow> Msg \<Rightarrow> 'w \<Rightarrow> Msg" where
  "Msg_after_tt_Execute tpl data m w =
     (case tpl of None \<Rightarrow> m | Some t \<Rightarrow> fst (snd (tt_Execute t [] data m w)))"

definition Msg_after_ht_Execute :: "('d, 'w) ht_Template option \<Rightarrow> 'd \<Rightarrow> Msg \<Rightarrow> 'w \<Rightarrow> Msg" where
  "Msg_after_ht_Execute tpl data m w =
     (case tpl of None \<Rightarrow> m | Some t \<Rightarrow> fst (snd (ht_Execute t [] data m w)))"

subsection \<open>The eight operations and the two helpers\<close>

text \<open>
  \<^verbatim>\<open>bytes.NewBuffer(nil)\<close> and \<^verbatim>\<open>bytes.Buffer{}\<close> are the empty buffer \<open>[]\<close>. The result
  of an operation is the error, the message after the call and the engine state after
  the call. Where the source goes on with \<^verbatim>\<open>m\<close> after \<^verbatim>\<open>Execute\<close>, the model goes on
  with the message \<open>m'\<close> that \<open>Execute\<close> returned: it is the same object. The two
  helpers have no receiver, but they call \<^verbatim>\<open>Execute\<close>, so they pass the message
  through as well.
\<close>

definition SetBodyTextTemplate ::
  "pkg \<Rightarrow> ('d, 'w) tt_Template option \<Rightarrow> 'd \<Rightarrow> PartOption list \<Rightarrow> Msg \<Rightarrow> 'w
     \<Rightarrow> error option \<times> Msg \<times> 'w" where
  "SetBodyTextTemplate p tpl data opts m w =
     (case tpl of
        None \<Rightarrow> (Some (errors_New (errTplPointerNil p)), m, w)
      | Some t \<Rightarrow>
          (case tt_Execute t [] data m w of
             ((buffer, Some err), m', w') \<Rightarrow>
               (Some (fmt_Errorf (errTplExecuteFailed p) err), m', w')
           | ((buffer, None), m', w') \<Rightarrow>
               (None, SetBodyWriter TypeTextPlain (writeFuncFromBuffer buffer) opts m', w')))"

definition SetBodyHTMLTemplate ::
  "pkg \<Rightarrow> ('d, 'w) ht_Template option \<Rightarrow> 'd \<Rightarrow> PartOption list \<Rightarrow> Msg \<Rightarrow> 'w
     \<Rightarrow> error option \<times> Msg \<times> 'w" where
  "SetBodyHTMLTemplate p tpl data opts m w =
     (case tpl of
        None \<Rightarrow> (Some (errors_New (errTplPointerNil p)), m, w)
      | Some t \<Rightarrow>
          (case ht_Execute t [] data m w of
             ((buffer, Some err), m', w') \<Rightarrow>
               (Some (fmt_Errorf (errTplExecuteFailed p) err), m', w')
           | ((buffer, None), m', w') \<Rightarrow>
               (None, SetBodyWriter TypeTextHTML (writeFuncFromBuffer buffer) opts m', w')))"

definition AddAlternativeTextTemplate ::
  "pkg \<Rightarrow> ('d, 'w) tt_Template option \<Rightarrow> 'd \<Rightarrow> PartOption list \<Rightarrow> Msg \<Rightarrow> 'w
     \<Rightarrow> error option \<times> Msg \<times> 'w" where
  "AddAlternativeTextTemplate p tpl data opts m w =
     (case tpl of
        None \<Rightarrow> (Some (errors_New (errTplPointerNil p)), m, w)
      | Some t \<Rightarrow>
          (case tt_Execute t [] data m w of
             ((buffer, Some err), m', w') \<Rightarrow>
               (Some (fmt_Errorf (errTplExecuteFailed p) err), m', w')
           | ((buffer, None), m', w') \<Rightarrow>
               (None, AddAlternativeWriter TypeTextPlain (writeFuncFromBuffer buffer) opts m', w')))"

definition AddAlternativeHTMLTemplate ::
  "pkg \<Rightarrow> ('d, 'w) ht_Template option \<Rightarrow> 'd \<Rightarrow> PartOption list \<Rightarrow> Msg \<Rightarrow> 'w
     \<Rightarrow> error option \<times> Msg \<times> 'w" where
  "AddAlternativeHTMLTemplate p tpl data opts m w =
     (case tpl of
        None \<Rightarrow> (Some (errors_New (errTplPointerNil p)), m, w)
      | Some t \<Rightarrow>
          (case ht_Execute t [] data m w of
             ((buffer, Some err), m', w') \<Rightarrow>
               (Some (fmt_Errorf (errTplExecuteFailed p) err), m', w')
           | ((buffer, None), m', w') \<Rightarrow>
               (None, AddAlternativeWriter TypeTextHTML (writeFuncFromBuffer buffer) opts m', w')))"

definition fileFromTextTemplate ::
  "pkg \<Rightarrow> string \<Rightarrow> ('d, 'w) tt_Template option \<Rightarrow> 'd \<Rightarrow> Msg \<Rightarrow> 'w
     \<Rightarrow> (error + File) \<times> Msg \<times> 'w" where
  "fileFromTextTemplate p name tpl data m w =
     (case tpl of
        None \<Rightarrow> (Inl (errors_New (errTplPointerNil p)), m, w)
      | Some t \<Rightarrow>
          (case tt_Execute t [] data m w of
             ((buffer, Some err), m', w') \<Rightarrow>
               (Inl (fmt_Errorf (errTplExecuteFailed p) err), m', w')
           | ((buffer, None), m', w') \<Rightarrow> (fileFromReader p name buffer, m', w')))"

definition fileFromHTMLTemplate ::
  "pkg \<Rightarrow> string \<Rightarrow> ('d, 'w) ht_Template option \<Rightarrow> 'd \<Rightarrow> Msg \<Rightarrow> 'w
     \<Rightarrow> (error + File) \<times> Msg \<times> 'w" where
  "fileFromHTMLTemplate p name tpl data m w =
     (case tpl of
        None \<Rightarrow> (Inl (errors_New (errTplPointerNil p)), m, w)
      | Some t \<Rightarrow>
          (case ht_Execute t [] data m w of
             ((buffer, Some err), m', w') \<Rightarrow>
               (Inl (fmt_Errorf (errTplExecuteFailed p) err), m', w')
           | ((buffer, None), m', w') \<Rightarrow> (fileFromReader p name buffer, m', w')))"

definition AttachTextTemplate ::
  "pkg \<Rightarrow> string \<Rightarrow> ('d, 'w) tt_Template option \<Rightarrow> 'd \<Rightarrow> FileOption list \<Rightarrow> Msg \<Rightarrow> 'w
     \<Rightarrow> error option \<times> Msg \<times> 'w" where
  "AttachTextTemplate p name tpl data opts m w =
     (case fileFromTextTemplate p name tpl data m w of
        (Inl err, m', w') \<Rightarrow>
          (Some (fmt_Errorf ''failed to attach template: %w'' err), m', w')
      | (Inr file, m', w') \<Rightarrow>
          (None, m'\<lparr>attachments := appendFile (attachments m') file opts\<rparr>, w'))"

definition AttachHTMLTemplate ::
  "pkg \<Rightarrow> string \<Rightarrow> ('d, 'w) ht_Template option \<Rightarrow> 'd \<Rightarrow> FileOption list \<Rightarrow> Msg \<Rightarrow> 'w
     \<Rightarrow> error option \<times> Msg \<times> 'w" where
  "AttachHTMLTemplate p name tpl data opts m w =
     (case fileFromHTMLTemplate p name tpl data m w of
        (Inl err, m', w') \<Rightarrow>
          (Some (fmt_Errorf ''failed to attach template: %w'' err), m', w')
      | (Inr file, m', w') \<Rightarrow>
          (None, m'\<lparr>attachments := appendFile (attachments m') file opts\<rparr>, w'))"

definition EmbedTextTemplate ::
  "pkg \<Rightarrow> string \<Rightarrow> ('d, 'w) tt_Template option \<Rightarrow> 'd \<Rightarrow> FileOption list \<Rightarrow> Msg \<Rightarrow> 'w
     \<Rightarrow> error option \<times> Msg \<times> 'w" where
  "EmbedTextTemplate p name tpl data opts m w =
     (case fileFromTextTemplate p name tpl data m w of
        (Inl err, m', w') \<Rightarrow>
          (Some (fmt_Errorf ''failed to embed template: %w'' err), m', w')
      | (Inr file, m', w') \<Rightarrow>
          (None, m'\<lparr>embeds := appendFile (embeds m') file opts\<rparr>, w'))"

definition EmbedHTMLTemplate ::
  "pkg \<Rightarrow> string \<Rightarrow> ('d, 'w) ht_Template option \<Rightarrow> 'd \<Rightarrow> FileOption list \<Rightarrow> Msg \<Rightarrow> 'w
     \<Rightarrow> error option \<times> Msg \<times> 'w" where
  "EmbedHTMLTemplate p name tpl data opts m w =
     (case fileFromHTMLTemplate p name tpl data m w of
        (Inl err, m', w') \<Rightarrow>
          (Some (fmt_Errorf ''failed to embed template: %w'' err), m', w')
      | (Inr file, m', w') \<Rightarrow>
          (None, m'\<lparr>embeds := appendFile (embeds m') file opts\<rparr>, w'))"

subsection \<open>A fragment of the two engines\<close>

text \<open>
  Modelled from the spec: the template engine is a capability the file consumes, in an
  Escaping variant, whose output is sanitized against injection into HTML, and a Raw
  variant, which does not sanitize. The engines are Go's \<^verbatim>\<open>html/template\<close> and
  \<^verbatim>\<open>text/template\<close>, and they are not part of the repository. The fragment modelled
  here is this:
  \<^item> a parsed template is a sequence of literal text and actions \<^verbatim>\<open>{{.Name}}\<close>;
  \<^item> the data value has named members; a member is a string field, or a method that
    returns a string or an error and may change the message it holds;
  \<^item> execution writes node after node to the buffer; a member the data does not have,
    or a method that returns an error, stops it with an error, and what was written
    before stays in the buffer;
  \<^item> the text engine writes literal text and values as they are;
  \<^item> the HTML engine writes literal text as it is and a value through the escaper of
    HTML text content. This is what the engine does for a template whose literal text
    has no markup character, so that every action stands in text content
    (\<open>plain_literals\<close>); literal text with tags, attributes, scripts or comments
    makes the engine choose other escapers and is outside the fragment.
  The engine state counts the calls of \<open>Execute\<close>, as a spy engine would.
\<close>

datatype Node = TextNode string | FieldNode string

datatype Value = Str string | Method "Msg \<Rightarrow> (error + string) \<times> Msg"

type_synonym Fields = "(string \<times> Value) list"

definition evaluate_field :: "Fields \<Rightarrow> string \<Rightarrow> Msg \<Rightarrow> (error + string) \<times> Msg" where
  "evaluate_field data f m =
     (case map_of data f of
        None \<Rightarrow> (Inl (errors_New (''can't evaluate field '' @ f)), m)
      | Some (Str v) \<Rightarrow> (Inr v, m)
      | Some (Method call) \<Rightarrow> call m)"

fun execute_nodes ::
  "(string \<Rightarrow> string) \<Rightarrow> Node list \<Rightarrow> Fields \<Rightarrow> string \<Rightarrow> Msg
     \<Rightarrow> (string \<times> error option) \<times> Msg" where
  "execute_nodes esc [] data buffer m = ((buffer, None), m)"
| "execute_nodes esc (TextNode s # ns) data buffer m =
     execute_nodes esc ns data (buffer @ s) m"
| "execute_nodes esc (FieldNode f # ns) data buffer m =
     (case evaluate_field data f m of
        (Inl err, m') \<Rightarrow> ((buffer, Some err), m')
      | (Inr v, m') \<Rightarrow> execute_nodes esc ns data (buffer @ esc v) m')"

text \<open>
  The escaper of HTML text content replaces seven bytes: NUL by the three bytes of
  U+FFFD, and the double quote, the ampersand, the single quote, the plus sign and the
  two angle brackets by character references. Every other byte is written as it is.
\<close>

definition htmlReplacement :: "char \<Rightarrow> string" where
  "htmlReplacement c =
     (if c = CHR 0x00 then [CHR 0xEF, CHR 0xBF, CHR 0xBD]
      else if c = CHR 0x22 then ''&#34;''
      else if c = CHR ''&'' then ''&amp;''
      else if c = CHR 0x27 then ''&#39;''
      else if c = CHR ''+'' then ''&#43;''
      else if c = CHR ''<'' then ''&lt;''
      else if c = CHR ''>'' then ''&gt;''
      else [c])"

definition htmlEscaper :: "string \<Rightarrow> string" where
  "htmlEscaper s = concat (map htmlReplacement s)"



definition text_template :: "Node list \<Rightarrow> (Fields, nat) tt_Template" where
  "text_template ns =
     tt_Template (\<lambda>buffer data m calls.
       (case execute_nodes (\<lambda>s. s) ns data buffer m of (r, m') \<Rightarrow> (r, m', Suc calls)))"

definition html_template :: "Node list \<Rightarrow> (Fields, nat) ht_Template" where
  "html_template ns =
     ht_Template (\<lambda>buffer data m calls.
       (case execute_nodes htmlEscaper ns data buffer m of (r, m') \<Rightarrow> (r, m', Suc calls)))"

text \<open>
  The parsed form of the template text \<^verbatim>\<open>Hello {{.Name}}\<close>, for each engine.
\<close>

definition greeting_text :: "(Fields, nat) tt_Template" where
  "greeting_text = text_template [TextNode ''Hello '', FieldNode ''Name'']"

definition greeting_html :: "(Fields, nat) ht_Template" where
  "greeting_html = html_template [TextNode ''Hello '', FieldNode ''Name'']"

text \<open>
  The parsed form of a second template text, \<^verbatim>\<open>Bye {{.Name}}\<close>, for each engine.
\<close>

definition farewell_text :: "(Fields, nat) tt_Template" where
  "farewell_text = text_template [TextNode ''Bye '', FieldNode ''Name'']"

definition farewell_html :: "(Fields, nat) ht_Template" where
  "farewell_html = html_template [TextNode ''Bye '', FieldNode ''Name'']"

text \<open>
  An instance of the package declarations: two message texts, and a \<open>fileFromReader\<close>
  that keeps the name and the bytes. A second instance has a \<open>fileFromReader\<close> that
  rejects every content.
\<close>

definition sample_pkg :: pkg where
  "sample_pkg =
     \<lparr>errTplPointerNil = ''template pointer is nil'',
      errTplExecuteFailed = ''failed to execute template: %w'',
      fileFromReader =
        (\<lambda>name buffer. Inr \<lparr>Name = name, Writer = writeFuncFromBuffer buffer, fileOpts = []\<rparr>)\<rparr>"

definition rejecting_pkg :: pkg where
  "rejecting_pkg = sample_pkg\<lparr>fileFromReader := (\<lambda>name buffer. Inl (errors_New ''rejected''))\<rparr>"

text \<open>A message with something in each of its four collections.\<close>

definition sample_Msg :: Msg where
  "sample_Msg =
     \<lparr>body = Some \<lparr>contentType = TypeTextHTML, writeFunc = writeFuncFromBuffer ''<p>old</p>'',
                   partOpts = []\<rparr>,
      alternatives = [\<lparr>contentType = TypeTextPlain, writeFunc = writeFuncFromBuffer ''old'',
                       partOpts = []\<rparr>],
      attachments = [\<lparr>Name = ''a.txt'', Writer = writeFuncFromBuffer ''A'', fileOpts = []\<rparr>],
      embeds = [\<lparr>Name = ''e.png'', Writer = writeFuncFromBuffer ''E'', fileOpts = []\<rparr>]\<rparr>"

text \<open>
  Data whose method \<^verbatim>\<open>Name\<close> holds the message. The method sets the body, attaches a
  file and embeds a file, as a Go method that holds \<^verbatim>\<open>m\<close> can do by calling the
  message's own methods. One value returns \<open>World\<close> after that, the other an error.
\<close>

definition meddle :: "Msg \<Rightarrow> Msg" where
  "meddle m =
     (SetBodyWriter TypeTextPlain (writeFuncFromBuffer ''meddled'') [] m)
       \<lparr>attachments :=
          appendFile (attachments m)
            \<lparr>Name = ''x.bin'', Writer = writeFuncFromBuffer ''X'', fileOpts = []\<rparr> [],
        embeds :=
          appendFile (embeds m)
            \<lparr>Name = ''y.bin'', Writer = writeFuncFromBuffer ''Y'', fileOpts = []\<rparr> []\<rparr>"

definition meddling_data :: Fields where
  "meddling_data = [(''Name'', Method (\<lambda>m. (Inr ''World'', meddle m)))]"

definition failing_meddling_data :: Fields where
  "failing_meddling_data = [(''Name'', Method (\<lambda>m. (Inl (errors_New ''boom''), meddle m)))]"

subsection \<open>The branches of each operation\<close>

text \<open>
  Each operation has three ways through it: the nil check, a failed \<open>Execute\<close>, and a
  successful one. The lemmas below give the result on each.
\<close>

lemma SetBodyTextTemplate_nil:
  "SetBodyTextTemplate p None data opts m w = (Some (errors_New (errTplPointerNil p)), m, w)"
  by (simp add: SetBodyTextTemplate_def)

lemma SetBodyTextTemplate_failed:
  "tt_Execute t [] data m w = ((buffer, Some err), m', w') \<Longrightarrow>
   SetBodyTextTemplate p (Some t) data opts m w = (Some (fmt_Errorf (errTplExecuteFailed p) err), m', w')"
  by (simp add: SetBodyTextTemplate_def)

lemma SetBodyTextTemplate_ok:
  "tt_Execute t [] data m w = ((buffer, None), m', w') \<Longrightarrow>
   SetBodyTextTemplate p (Some t) data opts m w =
     (None, SetBodyWriter TypeTextPlain (writeFuncFromBuffer buffer) opts m', w')"
  by (simp add: SetBodyTextTemplate_def)

lemma SetBodyHTMLTemplate_nil:
  "SetBodyHTMLTemplate p None data opts m w = (Some (errors_New (errTplPointerNil p)), m, w)"
  by (simp add: SetBodyHTMLTemplate_def)

lemma SetBodyHTMLTemplate_failed:
  "ht_Execute t [] data m w = ((buffer, Some err), m', w') \<Longrightarrow>
   SetBodyHTMLTemplate p (Some t) data opts m w = (Some (fmt_Errorf (errTplExecuteFailed p) err), m', w')"
  by (simp add: SetBodyHTMLTemplate_def)

lemma SetBodyHTMLTemplate_ok:
  "ht_Execute t [] data m w = ((buffer, None), m', w') \<Longrightarrow>
   SetBodyHTMLTemplate p (Some t) data opts m w =
     (None, SetBodyWriter TypeTextHTML (writeFuncFromBuffer buffer) opts m', w')"
  by (simp add: SetBodyHTMLTemplate_def)

lemma AddAlternativeTextTemplate_nil:
  "AddAlternativeTextTemplate p None data opts m w = (Some (errors_New (errTplPointerNil p)), m, w)"
  by (simp add: AddAlternativeTextTemplate_def)

lemma AddAlternativeTextTemplate_failed:
  "tt_Execute t [] data m w = ((buffer, Some err), m', w') \<Longrightarrow>
   AddAlternativeTextTemplate p (Some t) data opts m w = (Some (fmt_Errorf (errTplExecuteFailed p) err), m', w')"
  by (simp add: AddAlternativeTextTemplate_def)

lemma AddAlternativeTextTemplate_ok:
  "tt_Execute t [] data m w = ((buffer, None), m', w') \<Longrightarrow>
   AddAlternativeTextTemplate p (Some t) data opts m w =
     (None, AddAlternativeWriter TypeTextPlain (writeFuncFromBuffer buffer) opts m', w')"
  by (simp add: AddAlternativeTextTemplate_def)

lemma AddAlternativeHTMLTemplate_nil:
  "AddAlternativeHTMLTemplate p None data opts m w = (Some (errors_New (errTplPointerNil p)), m, w)"
  by (simp add: AddAlternativeHTMLTemplate_def)

lemma AddAlternativeHTMLTemplate_failed:
  "ht_Execute t [] data m w = ((buffer, Some err), m', w') \<Longrightarrow>
   AddAlternativeHTMLTemplate p (Some t) data opts m w = (Some (fmt_Errorf (errTplExecuteFailed p) err), m', w')"
  by (simp add: AddAlternativeHTMLTemplate_def)

lemma AddAlternativeHTMLTemplate_ok:
  "ht_Execute t [] data m w = ((buffer, None), m', w') \<Longrightarrow>
   AddAlternativeHTMLTemplate p (Some t) data opts m w =
     (None, AddAlternativeWriter TypeTextHTML (writeFuncFromBuffer buffer) opts m', w')"
  by (simp add: AddAlternativeHTMLTemplate_def)

lemma fileFromTextTemplate_nil:
  "fileFromTextTemplate p name None data m w = (Inl (errors_New (errTplPointerNil p)), m, w)"
  by (simp add: fileFromTextTemplate_def)

lemma fileFromTextTemplate_failed:
  "tt_Execute t [] data m w = ((buffer, Some err), m', w') \<Longrightarrow>
   fileFromTextTemplate p name (Some t) data m w = (Inl (fmt_Errorf (errTplExecuteFailed p) err), m', w')"
  by (simp add: fileFromTextTemplate_def)

lemma fileFromTextTemplate_ok:
  "tt_Execute t [] data m w = ((buffer, None), m', w') \<Longrightarrow>
   fileFromTextTemplate p name (Some t) data m w = (fileFromReader p name buffer, m', w')"
  by (simp add: fileFromTextTemplate_def)

lemma fileFromTextTemplate_Msg:
  "fst (snd (fileFromTextTemplate p name tpl data m w)) = Msg_after_tt_Execute tpl data m w"
  by (simp add: fileFromTextTemplate_def Msg_after_tt_Execute_def split: option.splits prod.splits)

lemma fileFromHTMLTemplate_nil:
  "fileFromHTMLTemplate p name None data m w = (Inl (errors_New (errTplPointerNil p)), m, w)"
  by (simp add: fileFromHTMLTemplate_def)

lemma fileFromHTMLTemplate_failed:
  "ht_Execute t [] data m w = ((buffer, Some err), m', w') \<Longrightarrow>
   fileFromHTMLTemplate p name (Some t) data m w = (Inl (fmt_Errorf (errTplExecuteFailed p) err), m', w')"
  by (simp add: fileFromHTMLTemplate_def)

lemma fileFromHTMLTemplate_ok:
  "ht_Execute t [] data m w = ((buffer, None), m', w') \<Longrightarrow>
   fileFromHTMLTemplate p name (Some t) data m w = (fileFromReader p name buffer, m', w')"
  by (simp add: fileFromHTMLTemplate_def)

lemma fileFromHTMLTemplate_Msg:
  "fst (snd (fileFromHTMLTemplate p name tpl data m w)) = Msg_after_ht_Execute tpl data m w"
  by (simp add: fileFromHTMLTemplate_def Msg_after_ht_Execute_def split: option.splits prod.splits)

lemma AttachTextTemplate_err:
  "fileFromTextTemplate p name tpl data m w = (Inl err, m', w') \<Longrightarrow>
   AttachTextTemplate p name tpl data opts m w =
     (Some (fmt_Errorf ''failed to attach template: %w'' err), m', w')"
  by (simp add: AttachTextTemplate_def)

lemma AttachTextTemplate_ok:
  "fileFromTextTemplate p name tpl data m w = (Inr file, m', w') \<Longrightarrow>
   AttachTextTemplate p name tpl data opts m w =
     (None, m'\<lparr>attachments := appendFile (attachments m') file opts\<rparr>, w')"
  by (simp add: AttachTextTemplate_def)

lemma AttachHTMLTemplate_err:
  "fileFromHTMLTemplate p name tpl data m w = (Inl err, m', w') \<Longrightarrow>
   AttachHTMLTemplate p name tpl data opts m w =
     (Some (fmt_Errorf ''failed to attach template: %w'' err), m', w')"
  by (simp add: AttachHTMLTemplate_def)

lemma AttachHTMLTemplate_ok:
  "fileFromHTMLTemplate p name tpl data m w = (Inr file, m', w') \<Longrightarrow>
   AttachHTMLTemplate p name tpl data opts m w =
     (None, m'\<lparr>attachments := appendFile (attachments m') file opts\<rparr>, w')"
  by (simp add: AttachHTMLTemplate_def)

lemma EmbedTextTemplate_err:
  "fileFromTextTemplate p name tpl data m w = (Inl err, m', w') \<Longrightarrow>
   EmbedTextTemplate p name tpl data opts m w =
     (Some (fmt_Errorf ''failed to embed template: %w'' err), m', w')"
  by (simp add: EmbedTextTemplate_def)

lemma EmbedTextTemplate_ok:
  "fileFromTextTemplate p name tpl data m w = (Inr file, m', w') \<Longrightarrow>
   EmbedTextTemplate p name tpl data opts m w =
     (None, m'\<lparr>embeds := appendFile (embeds m') file opts\<rparr>, w')"
  by (simp add: EmbedTextTemplate_def)

lemma EmbedHTMLTemplate_err:
  "fileFromHTMLTemplate p name tpl data m w = (Inl err, m', w') \<Longrightarrow>
   EmbedHTMLTemplate p name tpl data opts m w =
     (Some (fmt_Errorf ''failed to embed template: %w'' err), m', w')"
  by (simp add: EmbedHTMLTemplate_def)

lemma EmbedHTMLTemplate_ok:
  "fileFromHTMLTemplate p name tpl data m w = (Inr file, m', w') \<Longrightarrow>
   EmbedHTMLTemplate p name tpl data opts m w =
     (None, m'\<lparr>embeds := appendFile (embeds m') file opts\<rparr>, w')"
  by (simp add: EmbedHTMLTemplate_def)

text \<open>
  An operation that returns an error returns the message as \<open>Execute\<close> left it, and
  the message it was given when \<open>Execute\<close> was not called: its own code changes
  nothing on a failing path.
\<close>

lemma SetBodyTextTemplate_error_keeps_Msg:
  "fst (SetBodyTextTemplate p tpl data opts m w) \<noteq> None \<Longrightarrow>
   fst (snd (SetBodyTextTemplate p tpl data opts m w)) = Msg_after_tt_Execute tpl data m w"
  by (simp add: SetBodyTextTemplate_def Msg_after_tt_Execute_def split: option.splits prod.splits)

lemma SetBodyHTMLTemplate_error_keeps_Msg:
  "fst (SetBodyHTMLTemplate p tpl data opts m w) \<noteq> None \<Longrightarrow>
   fst (snd (SetBodyHTMLTemplate p tpl data opts m w)) = Msg_after_ht_Execute tpl data m w"
  by (simp add: SetBodyHTMLTemplate_def Msg_after_ht_Execute_def split: option.splits prod.splits)

lemma AddAlternativeTextTemplate_error_keeps_Msg:
  "fst (AddAlternativeTextTemplate p tpl data opts m w) \<noteq> None \<Longrightarrow>
   fst (snd (AddAlternativeTextTemplate p tpl data opts m w)) = Msg_after_tt_Execute tpl data m w"
  by (simp add: AddAlternativeTextTemplate_def Msg_after_tt_Execute_def split: option.splits prod.splits)

lemma AddAlternativeHTMLTemplate_error_keeps_Msg:
  "fst (AddAlternativeHTMLTemplate p tpl data opts m w) \<noteq> None \<Longrightarrow>
   fst (snd (AddAlternativeHTMLTemplate p tpl data opts m w)) = Msg_after_ht_Execute tpl data m w"
  by (simp add: AddAlternativeHTMLTemplate_def Msg_after_ht_Execute_def split: option.splits prod.splits)

lemma AttachTextTemplate_error_keeps_Msg:
  "fst (AttachTextTemplate p name tpl data opts m w) \<noteq> None \<Longrightarrow>
   fst (snd (AttachTextTemplate p name tpl data opts m w)) = Msg_after_tt_Execute tpl data m w"
  using fileFromTextTemplate_Msg [of p name tpl data m w]
  by (auto simp add: AttachTextTemplate_def split: sum.splits prod.splits)

lemma AttachHTMLTemplate_error_keeps_Msg:
  "fst (AttachHTMLTemplate p name tpl data opts m w) \<noteq> None \<Longrightarrow>
   fst (snd (AttachHTMLTemplate p name tpl data opts m w)) = Msg_after_ht_Execute tpl data m w"
  using fileFromHTMLTemplate_Msg [of p name tpl data m w]
  by (auto simp add: AttachHTMLTemplate_def split: sum.splits prod.splits)

lemma EmbedTextTemplate_error_keeps_Msg:
  "fst (EmbedTextTemplate p name tpl data opts m w) \<noteq> None \<Longrightarrow>
   fst (snd (EmbedTextTemplate p name tpl data opts m w)) = Msg_after_tt_Execute tpl data m w"
  using fileFromTextTemplate_Msg [of p name tpl data m w]
  by (auto simp add: EmbedTextTemplate_def split: sum.splits prod.splits)

lemma EmbedHTMLTemplate_error_keeps_Msg:
  "fst (EmbedHTMLTemplate p name tpl data opts m w) \<noteq> None \<Longrightarrow>
   fst (snd (EmbedHTMLTemplate p name tpl data opts m w)) = Msg_after_ht_Execute tpl data m w"
  using fileFromHTMLTemplate_Msg [of p name tpl data m w]
  by (auto simp add: EmbedHTMLTemplate_def split: sum.splits prod.splits)

text \<open>What an operation that returns \<^verbatim>\<open>nil\<close> has done to the message.\<close>

lemma SetBodyTextTemplate_success:
  "fst (SetBodyTextTemplate p tpl data opts m w) = None \<Longrightarrow>
   \<exists>buffer. fst (snd (SetBodyTextTemplate p tpl data opts m w)) =
     SetBodyWriter TypeTextPlain (writeFuncFromBuffer buffer) opts (Msg_after_tt_Execute tpl data m w)"
  by (auto simp add: SetBodyTextTemplate_def Msg_after_tt_Execute_def split: option.splits prod.splits)

lemma SetBodyHTMLTemplate_success:
  "fst (SetBodyHTMLTemplate p tpl data opts m w) = None \<Longrightarrow>
   \<exists>buffer. fst (snd (SetBodyHTMLTemplate p tpl data opts m w)) =
     SetBodyWriter TypeTextHTML (writeFuncFromBuffer buffer) opts (Msg_after_ht_Execute tpl data m w)"
  by (auto simp add: SetBodyHTMLTemplate_def Msg_after_ht_Execute_def split: option.splits prod.splits)

lemma AddAlternativeTextTemplate_success:
  "fst (AddAlternativeTextTemplate p tpl data opts m w) = None \<Longrightarrow>
   \<exists>buffer. fst (snd (AddAlternativeTextTemplate p tpl data opts m w)) =
     AddAlternativeWriter TypeTextPlain (writeFuncFromBuffer buffer) opts (Msg_after_tt_Execute tpl data m w)"
  by (auto simp add: AddAlternativeTextTemplate_def Msg_after_tt_Execute_def split: option.splits prod.splits)

lemma AddAlternativeHTMLTemplate_success:
  "fst (AddAlternativeHTMLTemplate p tpl data opts m w) = None \<Longrightarrow>
   \<exists>buffer. fst (snd (AddAlternativeHTMLTemplate p tpl data opts m w)) =
     AddAlternativeWriter TypeTextHTML (writeFuncFromBuffer buffer) opts (Msg_after_ht_Execute tpl data m w)"
  by (auto simp add: AddAlternativeHTMLTemplate_def Msg_after_ht_Execute_def split: option.splits prod.splits)

lemma AttachTextTemplate_appends:
  "fst (AttachTextTemplate p name tpl data opts m w) = None \<Longrightarrow>
   \<exists>file. fst (fileFromTextTemplate p name tpl data m w) = Inr file \<and>
     fst (snd (AttachTextTemplate p name tpl data opts m w)) =
       (Msg_after_tt_Execute tpl data m w)
         \<lparr>attachments := attachments (Msg_after_tt_Execute tpl data m w) @
            [file\<lparr>fileOpts := fileOpts file @ opts\<rparr>]\<rparr>"
  using fileFromTextTemplate_Msg [of p name tpl data m w]
  by (auto simp add: AttachTextTemplate_def appendFile_def split: sum.splits prod.splits)

lemma AttachHTMLTemplate_appends:
  "fst (AttachHTMLTemplate p name tpl data opts m w) = None \<Longrightarrow>
   \<exists>file. fst (fileFromHTMLTemplate p name tpl data m w) = Inr file \<and>
     fst (snd (AttachHTMLTemplate p name tpl data opts m w)) =
       (Msg_after_ht_Execute tpl data m w)
         \<lparr>attachments := attachments (Msg_after_ht_Execute tpl data m w) @
            [file\<lparr>fileOpts := fileOpts file @ opts\<rparr>]\<rparr>"
  using fileFromHTMLTemplate_Msg [of p name tpl data m w]
  by (auto simp add: AttachHTMLTemplate_def appendFile_def split: sum.splits prod.splits)

lemma EmbedTextTemplate_appends:
  "fst (EmbedTextTemplate p name tpl data opts m w) = None \<Longrightarrow>
   \<exists>file. fst (fileFromTextTemplate p name tpl data m w) = Inr file \<and>
     fst (snd (EmbedTextTemplate p name tpl data opts m w)) =
       (Msg_after_tt_Execute tpl data m w)
         \<lparr>embeds := embeds (Msg_after_tt_Execute tpl data m w) @
            [file\<lparr>fileOpts := fileOpts file @ opts\<rparr>]\<rparr>"
  using fileFromTextTemplate_Msg [of p name tpl data m w]
  by (auto simp add: EmbedTextTemplate_def appendFile_def split: sum.splits prod.splits)

lemma EmbedHTMLTemplate_appends:
  "fst (EmbedHTMLTemplate p name tpl data opts m w) = None \<Longrightarrow>
   \<exists>file. fst (fileFromHTMLTemplate p name tpl data m w) = Inr file \<and>
     fst (snd (EmbedHTMLTemplate p name tpl data opts m w)) =
       (Msg_after_ht_Execute tpl data m w)
         \<lparr>embeds := embeds (Msg_after_ht_Execute tpl data m w) @
            [file\<lparr>fileOpts := fileOpts file @ opts\<rparr>]\<rparr>"
  using fileFromHTMLTemplate_Msg [of p name tpl data m w]
  by (auto simp add: EmbedHTMLTemplate_def appendFile_def split: sum.splits prod.splits)

text \<open>The spec-modelled writers and the error chain.\<close>

lemma writeFuncFromBuffer_appends: "writeFuncFromBuffer buffer sink = sink @ buffer"
  by (simp add: writeFuncFromBuffer_def)

lemma SetBodyWriter_body:
  "body (SetBodyWriter ct fn opts m) = Some \<lparr>contentType = ct, writeFunc = fn, partOpts = opts\<rparr>"
  by (simp add: SetBodyWriter_def)

lemma SetBodyWriter_contentType:
  "map_option contentType (body (SetBodyWriter ct fn opts m)) = Some ct"
  by (simp add: SetBodyWriter_def)

lemma AddAlternativeWriter_alternatives:
  "alternatives (AddAlternativeWriter ct fn opts m) =
     alternatives m @ [\<lparr>contentType = ct, writeFunc = fn, partOpts = opts\<rparr>]"
  by (simp add: AddAlternativeWriter_def)

lemma AddAlternativeWriter_contentType:
  "map contentType (alternatives (AddAlternativeWriter ct fn opts m)) =
     map contentType (alternatives m) @ [ct]"
  by (simp add: AddAlternativeWriter_def)

lemma Is_refl: "Is e e"
  by (cases e) simp_all

lemma Is_wrapped: "has_wrap_verb f \<Longrightarrow> Is err target \<Longrightarrow> Is (fmt_Errorf f err) target"
  by simp

lemma attach_note_wraps: "has_wrap_verb ''failed to attach template: %w''"
  by simp

lemma embed_note_wraps: "has_wrap_verb ''failed to embed template: %w''"
  by simp

text \<open>Runs of the two engines of the fragment.\<close>

lemma text_template_Execute:
  "execute_nodes (\<lambda>s. s) ns data buffer m = (r, m') \<Longrightarrow>
   tt_Execute (text_template ns) buffer data m calls = (r, m', Suc calls)"
  by (simp add: text_template_def)

lemma html_template_Execute:
  "execute_nodes htmlEscaper ns data buffer m = (r, m') \<Longrightarrow>
   ht_Execute (html_template ns) buffer data m calls = (r, m', Suc calls)"
  by (simp add: html_template_def)

lemma greeting_text_renders:
  "tt_Execute greeting_text [] [(''Name'', Str ''World'')] m calls =
     ((''Hello World'', None), m, Suc calls)"
  by (simp add: greeting_text_def text_template_def evaluate_field_def)

lemma greeting_html_renders:
  "ht_Execute greeting_html [] [(''Name'', Str ''World'')] m calls =
     ((''Hello World'', None), m, Suc calls)"
  by (simp add: greeting_html_def html_template_def evaluate_field_def htmlEscaper_def
      htmlReplacement_def)

lemma greeting_text_fails:
  "tt_Execute greeting_text [] [] m calls =
     ((''Hello '', Some (errors_New ''can't evaluate field Name'')), m, Suc calls)"
  by (simp add: greeting_text_def text_template_def evaluate_field_def)

lemma greeting_html_fails:
  "ht_Execute greeting_html [] [] m calls =
     ((''Hello '', Some (errors_New ''can't evaluate field Name'')), m, Suc calls)"
  by (simp add: greeting_html_def html_template_def evaluate_field_def)

section \<open>Properties\<close>

subsection \<open>C1: a failed call changes nothing itself\<close>

text \<open>
  As C1 is written, for every template and data, it does not hold. The greeting is
  evaluated on data whose method \<^verbatim>\<open>Name\<close> changes the message and then returns an
  error: \<open>SetBodyTextTemplate\<close> returns an error and the body is another one,
  \<open>AttachTextTemplate\<close> returns an error and the message has one attachment more.
\<close>

theorem failed_call_with_meddling_data_changes_Msg:
  "fst (SetBodyTextTemplate sample_pkg (Some greeting_text) failing_meddling_data []
      sample_Msg 0) \<noteq> None \<and>
   body (fst (snd (SetBodyTextTemplate sample_pkg (Some greeting_text) failing_meddling_data []
      sample_Msg 0))) \<noteq> body sample_Msg \<and>
   fst (AttachTextTemplate sample_pkg ''g.txt'' (Some greeting_text) failing_meddling_data []
      sample_Msg 0) \<noteq> None \<and>
   attachments (fst (snd (AttachTextTemplate sample_pkg ''g.txt'' (Some greeting_text)
      failing_meddling_data [] sample_Msg 0))) \<noteq> attachments sample_Msg \<and>
   map Name (attachments (fst (snd (AttachTextTemplate sample_pkg ''g.txt'' (Some greeting_text)
      failing_meddling_data [] sample_Msg 0)))) = [''a.txt'', ''x.bin''] \<and>
   map Name (attachments sample_Msg) = [''a.txt'']"
proof -
  have t: "tt_Execute greeting_text [] failing_meddling_data sample_Msg (0::nat) =
      ((''Hello '', Some (errors_New ''boom'')), meddle sample_Msg, 1)"
    by (simp add: greeting_text_def text_template_def evaluate_field_def
        failing_meddling_data_def)
  have b: "body (meddle sample_Msg) \<noteq> body sample_Msg"
    by (simp add: meddle_def SetBodyWriter_def sample_Msg_def TypeTextPlain_def TypeTextHTML_def)
  have a: "map Name (attachments (meddle sample_Msg)) = [''a.txt'', ''x.bin'']"
    by (simp add: meddle_def appendFile_def sample_Msg_def)
  have s: "map Name (attachments sample_Msg) = [''a.txt'']"
    by (simp add: sample_Msg_def)
  from a s have n: "attachments (meddle sample_Msg) \<noteq> attachments sample_Msg"
    by auto
  show ?thesis
    by (simp add: SetBodyTextTemplate_failed [OF t]
        AttachTextTemplate_err [OF fileFromTextTemplate_failed [OF t]] a b s n)
qed

text \<open>
  Claim C1, amended. For each of the eight operations and every template and data for
  which the operation returns an error and \<open>Execute\<close> leaves the message as it was
  (the methods of the data do not change it), the message after the call is the message
  before the call; in particular its primary body, its alternative sequence, its
  attachment sequence and its embed sequence are identical before and after. The code
  of the operation changes the message only on the path that returns \<^verbatim>\<open>nil\<close>.
\<close>

theorem failed_call_leaves_Msg_unchanged:
  assumes "Msg_after_tt_Execute tt data m w = m"
      and "Msg_after_ht_Execute ht data m w = m"
  shows
  "(fst (SetBodyTextTemplate p tt data popts m w) \<noteq> None \<longrightarrow>
      fst (snd (SetBodyTextTemplate p tt data popts m w)) = m) \<and>
   (fst (SetBodyHTMLTemplate p ht data popts m w) \<noteq> None \<longrightarrow>
      fst (snd (SetBodyHTMLTemplate p ht data popts m w)) = m) \<and>
   (fst (AddAlternativeTextTemplate p tt data popts m w) \<noteq> None \<longrightarrow>
      fst (snd (AddAlternativeTextTemplate p tt data popts m w)) = m) \<and>
   (fst (AddAlternativeHTMLTemplate p ht data popts m w) \<noteq> None \<longrightarrow>
      fst (snd (AddAlternativeHTMLTemplate p ht data popts m w)) = m) \<and>
   (fst (AttachTextTemplate p name tt data fopts m w) \<noteq> None \<longrightarrow>
      fst (snd (AttachTextTemplate p name tt data fopts m w)) = m) \<and>
   (fst (AttachHTMLTemplate p name ht data fopts m w) \<noteq> None \<longrightarrow>
      fst (snd (AttachHTMLTemplate p name ht data fopts m w)) = m) \<and>
   (fst (EmbedTextTemplate p name tt data fopts m w) \<noteq> None \<longrightarrow>
      fst (snd (EmbedTextTemplate p name tt data fopts m w)) = m) \<and>
   (fst (EmbedHTMLTemplate p name ht data fopts m w) \<noteq> None \<longrightarrow>
      fst (snd (EmbedHTMLTemplate p name ht data fopts m w)) = m)"
  by (intro conjI impI)
    (simp_all add: assms SetBodyTextTemplate_error_keeps_Msg SetBodyHTMLTemplate_error_keeps_Msg
      AddAlternativeTextTemplate_error_keeps_Msg AddAlternativeHTMLTemplate_error_keeps_Msg
      AttachTextTemplate_error_keeps_Msg AttachHTMLTemplate_error_keeps_Msg
      EmbedTextTemplate_error_keeps_Msg EmbedHTMLTemplate_error_keeps_Msg)

text \<open>
  The run: both greeting templates on data without the member \<open>Name\<close>. \<open>Execute\<close>
  fails after writing \<open>Hello\<close> and leaves the message alone, every operation returns
  an error, and the message still has its old body, alternative, attachment and embed.
\<close>

theorem failed_call_leaves_Msg_unchanged_witness:
  "Msg_after_tt_Execute (Some greeting_text) [] sample_Msg 0 = sample_Msg \<and>
   Msg_after_ht_Execute (Some greeting_html) [] sample_Msg 0 = sample_Msg \<and>
   fst (SetBodyTextTemplate sample_pkg (Some greeting_text) [] [] sample_Msg 0) \<noteq> None \<and>
   fst (snd (SetBodyTextTemplate sample_pkg (Some greeting_text) [] [] sample_Msg 0)) = sample_Msg \<and>
   fst (SetBodyHTMLTemplate sample_pkg (Some greeting_html) [] [] sample_Msg 0) \<noteq> None \<and>
   fst (snd (SetBodyHTMLTemplate sample_pkg (Some greeting_html) [] [] sample_Msg 0)) = sample_Msg \<and>
   fst (AddAlternativeTextTemplate sample_pkg (Some greeting_text) [] [] sample_Msg 0) \<noteq> None \<and>
   fst (snd (AddAlternativeTextTemplate sample_pkg (Some greeting_text) [] [] sample_Msg 0)) = sample_Msg \<and>
   fst (AddAlternativeHTMLTemplate sample_pkg (Some greeting_html) [] [] sample_Msg 0) \<noteq> None \<and>
   fst (snd (AddAlternativeHTMLTemplate sample_pkg (Some greeting_html) [] [] sample_Msg 0)) = sample_Msg \<and>
   fst (AttachTextTemplate sample_pkg ''g.txt'' (Some greeting_text) [] [] sample_Msg 0) \<noteq> None \<and>
   fst (snd (AttachTextTemplate sample_pkg ''g.txt'' (Some greeting_text) [] [] sample_Msg 0)) = sample_Msg \<and>
   fst (AttachHTMLTemplate sample_pkg ''g.txt'' (Some greeting_html) [] [] sample_Msg 0) \<noteq> None \<and>
   fst (snd (AttachHTMLTemplate sample_pkg ''g.txt'' (Some greeting_html) [] [] sample_Msg 0)) = sample_Msg \<and>
   fst (EmbedTextTemplate sample_pkg ''g.txt'' (Some greeting_text) [] [] sample_Msg 0) \<noteq> None \<and>
   fst (snd (EmbedTextTemplate sample_pkg ''g.txt'' (Some greeting_text) [] [] sample_Msg 0)) = sample_Msg \<and>
   fst (EmbedHTMLTemplate sample_pkg ''g.txt'' (Some greeting_html) [] [] sample_Msg 0) \<noteq> None \<and>
   fst (snd (EmbedHTMLTemplate sample_pkg ''g.txt'' (Some greeting_html) [] [] sample_Msg 0)) = sample_Msg"
proof -
  note t = greeting_text_fails [of sample_Msg 0] and h = greeting_html_fails [of sample_Msg 0]
  have kt: "Msg_after_tt_Execute (Some greeting_text) [] sample_Msg 0 = sample_Msg"
    by (simp add: Msg_after_tt_Execute_def t)
  have kh: "Msg_after_ht_Execute (Some greeting_html) [] sample_Msg 0 = sample_Msg"
    by (simp add: Msg_after_ht_Execute_def h)
  note ft = fileFromTextTemplate_failed [OF t] and fh = fileFromHTMLTemplate_failed [OF h]
  show ?thesis
    using failed_call_leaves_Msg_unchanged [OF kt kh, where p = sample_pkg and popts = "[]"
        and fopts = "[]" and name = "''g.txt''"]
    by (simp add: kt kh SetBodyTextTemplate_failed [OF t] SetBodyHTMLTemplate_failed [OF h]
        AddAlternativeTextTemplate_failed [OF t] AddAlternativeHTMLTemplate_failed [OF h]
        AttachTextTemplate_err [OF ft] AttachHTMLTemplate_err [OF fh]
        EmbedTextTemplate_err [OF ft] EmbedHTMLTemplate_err [OF fh])
qed

subsection \<open>C2: a nil template fails before the engine is called\<close>

text \<open>
  Claim C2. With a nil template pointer each of the eight operations returns an error
  of the kind "template missing": the four body and alternative operations return
  \<^verbatim>\<open>errors.New(errTplPointerNil)\<close> itself, the four attach and embed operations return
  it wrapped with \<^verbatim>\<open>%w\<close>, so that \<^verbatim>\<open>errors.Is\<close> finds it in the chain. \<open>Execute\<close> is
  not called: whatever the engine state is, it is the same after the call, and the
  message is the same too.
\<close>

theorem nil_template_fails_without_Execute:
  "SetBodyTextTemplate p None data popts m w = (Some (errors_New (errTplPointerNil p)), m, w) \<and>
   SetBodyHTMLTemplate p None data popts m w = (Some (errors_New (errTplPointerNil p)), m, w) \<and>
   AddAlternativeTextTemplate p None data popts m w =
     (Some (errors_New (errTplPointerNil p)), m, w) \<and>
   AddAlternativeHTMLTemplate p None data popts m w =
     (Some (errors_New (errTplPointerNil p)), m, w) \<and>
   AttachTextTemplate p name None data fopts m w =
     (Some (fmt_Errorf ''failed to attach template: %w'' (errors_New (errTplPointerNil p))), m, w) \<and>
   AttachHTMLTemplate p name None data fopts m w =
     (Some (fmt_Errorf ''failed to attach template: %w'' (errors_New (errTplPointerNil p))), m, w) \<and>
   EmbedTextTemplate p name None data fopts m w =
     (Some (fmt_Errorf ''failed to embed template: %w'' (errors_New (errTplPointerNil p))), m, w) \<and>
   EmbedHTMLTemplate p name None data fopts m w =
     (Some (fmt_Errorf ''failed to embed template: %w'' (errors_New (errTplPointerNil p))), m, w) \<and>
   Is (fmt_Errorf ''failed to attach template: %w'' (errors_New (errTplPointerNil p)))
      (errors_New (errTplPointerNil p)) \<and>
   Is (fmt_Errorf ''failed to embed template: %w'' (errors_New (errTplPointerNil p)))
      (errors_New (errTplPointerNil p))"
proof -
  have a: "has_wrap_verb ''failed to attach template: %w''" by simp
  have e: "has_wrap_verb ''failed to embed template: %w''" by simp
  show ?thesis
    by (simp only: SetBodyTextTemplate_nil SetBodyHTMLTemplate_nil
        AddAlternativeTextTemplate_nil AddAlternativeHTMLTemplate_nil
        AttachTextTemplate_err [OF fileFromTextTemplate_nil]
        AttachHTMLTemplate_err [OF fileFromHTMLTemplate_nil]
        EmbedTextTemplate_err [OF fileFromTextTemplate_nil]
        EmbedHTMLTemplate_err [OF fileFromHTMLTemplate_nil]
        Is.simps a e simp_thms)
qed

text \<open>
  The run: a spy engine that has counted seven calls so far still shows seven after each
  of the eight operations, and the message is untouched.
\<close>

theorem nil_template_fails_without_Execute_witness:
  "SetBodyTextTemplate sample_pkg (None :: (Fields, nat) tt_Template option) [] [] sample_Msg 7 =
     (Some (errors_New ''template pointer is nil''), sample_Msg, 7) \<and>
   SetBodyHTMLTemplate sample_pkg (None :: (Fields, nat) ht_Template option) [] [] sample_Msg 7 =
     (Some (errors_New ''template pointer is nil''), sample_Msg, 7) \<and>
   AddAlternativeTextTemplate sample_pkg (None :: (Fields, nat) tt_Template option) [] []
       sample_Msg 7 =
     (Some (errors_New ''template pointer is nil''), sample_Msg, 7) \<and>
   AddAlternativeHTMLTemplate sample_pkg (None :: (Fields, nat) ht_Template option) [] []
       sample_Msg 7 =
     (Some (errors_New ''template pointer is nil''), sample_Msg, 7) \<and>
   AttachTextTemplate sample_pkg ''g.txt'' (None :: (Fields, nat) tt_Template option) [] []
       sample_Msg 7 =
     (Some (fmt_Errorf ''failed to attach template: %w'' (errors_New ''template pointer is nil'')),
      sample_Msg, 7) \<and>
   AttachHTMLTemplate sample_pkg ''g.txt'' (None :: (Fields, nat) ht_Template option) [] []
       sample_Msg 7 =
     (Some (fmt_Errorf ''failed to attach template: %w'' (errors_New ''template pointer is nil'')),
      sample_Msg, 7) \<and>
   EmbedTextTemplate sample_pkg ''g.txt'' (None :: (Fields, nat) tt_Template option) [] []
       sample_Msg 7 =
     (Some (fmt_Errorf ''failed to embed template: %w'' (errors_New ''template pointer is nil'')),
      sample_Msg, 7) \<and>
   EmbedHTMLTemplate sample_pkg ''g.txt'' (None :: (Fields, nat) ht_Template option) [] []
       sample_Msg 7 =
     (Some (fmt_Errorf ''failed to embed template: %w'' (errors_New ''template pointer is nil'')),
      sample_Msg, 7)"
proof -
  have n: "errTplPointerNil sample_pkg = ''template pointer is nil''"
    by (simp add: sample_pkg_def)
  show ?thesis
    using nil_template_fails_without_Execute [where p = sample_pkg and m = sample_Msg
        and w = "7::nat" and data = "[] :: Fields" and popts = "[]" and fopts = "[]"
        and name = "''g.txt''"]
    unfolding n by blast
qed

subsection \<open>C3: the content type is fixed by the operation\<close>

text \<open>
  Claim C3. On every successful call, \<open>SetBodyTextTemplate\<close> hands its producer to
  \<open>SetBodyWriter\<close> with \<open>TypeTextPlain\<close> and \<open>SetBodyHTMLTemplate\<close> with
  \<open>TypeTextHTML\<close>; \<open>AddAlternativeTextTemplate\<close> and \<open>AddAlternativeHTMLTemplate\<close>
  do the same with \<open>AddAlternativeWriter\<close>. So the body, or the alternative added
  last, has content type \<open>text/plain\<close> for the text operations and \<open>text/html\<close> for
  the HTML operations, whatever the template, the data and the rendered bytes are. The
  writer is applied to the message as \<open>Execute\<close> left it.
\<close>

theorem content_type_fixed_by_operation:
  "(fst (SetBodyTextTemplate p tt data opts m w) = None \<longrightarrow>
      (\<exists>buffer. fst (snd (SetBodyTextTemplate p tt data opts m w)) =
         SetBodyWriter TypeTextPlain (writeFuncFromBuffer buffer) opts
           (Msg_after_tt_Execute tt data m w)) \<and>
      map_option contentType (body (fst (snd (SetBodyTextTemplate p tt data opts m w)))) =
        Some ''text/plain'') \<and>
   (fst (SetBodyHTMLTemplate p ht data opts m w) = None \<longrightarrow>
      (\<exists>buffer. fst (snd (SetBodyHTMLTemplate p ht data opts m w)) =
         SetBodyWriter TypeTextHTML (writeFuncFromBuffer buffer) opts
           (Msg_after_ht_Execute ht data m w)) \<and>
      map_option contentType (body (fst (snd (SetBodyHTMLTemplate p ht data opts m w)))) =
        Some ''text/html'') \<and>
   (fst (AddAlternativeTextTemplate p tt data opts m w) = None \<longrightarrow>
      (\<exists>buffer. fst (snd (AddAlternativeTextTemplate p tt data opts m w)) =
         AddAlternativeWriter TypeTextPlain (writeFuncFromBuffer buffer) opts
           (Msg_after_tt_Execute tt data m w)) \<and>
      map contentType (alternatives (fst (snd (AddAlternativeTextTemplate p tt data opts m w)))) =
        map contentType (alternatives (Msg_after_tt_Execute tt data m w)) @ [''text/plain'']) \<and>
   (fst (AddAlternativeHTMLTemplate p ht data opts m w) = None \<longrightarrow>
      (\<exists>buffer. fst (snd (AddAlternativeHTMLTemplate p ht data opts m w)) =
         AddAlternativeWriter TypeTextHTML (writeFuncFromBuffer buffer) opts
           (Msg_after_ht_Execute ht data m w)) \<and>
      map contentType (alternatives (fst (snd (AddAlternativeHTMLTemplate p ht data opts m w)))) =
        map contentType (alternatives (Msg_after_ht_Execute ht data m w)) @ [''text/html''])"
proof (intro conjI impI)
  assume ok: "fst (SetBodyTextTemplate p tt data opts m w) = None"
  from SetBodyTextTemplate_success [OF ok]
  show "\<exists>buffer. fst (snd (SetBodyTextTemplate p tt data opts m w)) =
      SetBodyWriter TypeTextPlain (writeFuncFromBuffer buffer) opts
        (Msg_after_tt_Execute tt data m w)" .
  then show "map_option contentType (body (fst (snd (SetBodyTextTemplate p tt data opts m w)))) =
      Some ''text/plain''"
    using SetBodyWriter_contentType TypeTextPlain_def by metis
next
  assume ok: "fst (SetBodyHTMLTemplate p ht data opts m w) = None"
  from SetBodyHTMLTemplate_success [OF ok]
  show "\<exists>buffer. fst (snd (SetBodyHTMLTemplate p ht data opts m w)) =
      SetBodyWriter TypeTextHTML (writeFuncFromBuffer buffer) opts
        (Msg_after_ht_Execute ht data m w)" .
  then show "map_option contentType (body (fst (snd (SetBodyHTMLTemplate p ht data opts m w)))) =
      Some ''text/html''"
    using SetBodyWriter_contentType TypeTextHTML_def by metis
next
  assume ok: "fst (AddAlternativeTextTemplate p tt data opts m w) = None"
  from AddAlternativeTextTemplate_success [OF ok]
  show "\<exists>buffer. fst (snd (AddAlternativeTextTemplate p tt data opts m w)) =
      AddAlternativeWriter TypeTextPlain (writeFuncFromBuffer buffer) opts
        (Msg_after_tt_Execute tt data m w)" .
  then show "map contentType
      (alternatives (fst (snd (AddAlternativeTextTemplate p tt data opts m w)))) =
      map contentType (alternatives (Msg_after_tt_Execute tt data m w)) @ [''text/plain'']"
    using AddAlternativeWriter_contentType TypeTextPlain_def by metis
next
  assume ok: "fst (AddAlternativeHTMLTemplate p ht data opts m w) = None"
  from AddAlternativeHTMLTemplate_success [OF ok]
  show "\<exists>buffer. fst (snd (AddAlternativeHTMLTemplate p ht data opts m w)) =
      AddAlternativeWriter TypeTextHTML (writeFuncFromBuffer buffer) opts
        (Msg_after_ht_Execute ht data m w)" .
  then show "map contentType
      (alternatives (fst (snd (AddAlternativeHTMLTemplate p ht data opts m w)))) =
      map contentType (alternatives (Msg_after_ht_Execute ht data m w)) @ [''text/html'']"
    using AddAlternativeWriter_contentType TypeTextHTML_def by metis
qed

text \<open>
  The run: the HTML greeting rendered into the body of a message whose old body was
  plain text gives an HTML body, the text greeting gives a plain-text body although the
  field holds markup, and the alternatives get the type of the operation appended.
\<close>

theorem content_type_fixed_by_operation_witness:
  "fst (SetBodyTextTemplate sample_pkg (Some greeting_text) [(''Name'', Str ''<b>World</b>'')] []
      sample_Msg 0) = None \<and>
   map_option contentType (body (fst (snd (SetBodyTextTemplate sample_pkg (Some greeting_text)
      [(''Name'', Str ''<b>World</b>'')] [] sample_Msg 0)))) = Some ''text/plain'' \<and>
   fst (SetBodyHTMLTemplate sample_pkg (Some greeting_html) [(''Name'', Str ''<b>World</b>'')] []
      sample_Msg 0) = None \<and>
   map_option contentType (body (fst (snd (SetBodyHTMLTemplate sample_pkg (Some greeting_html)
      [(''Name'', Str ''<b>World</b>'')] [] sample_Msg 0)))) = Some ''text/html'' \<and>
   fst (AddAlternativeTextTemplate sample_pkg (Some greeting_text)
      [(''Name'', Str ''<b>World</b>'')] [] sample_Msg 0) = None \<and>
   map contentType (alternatives (fst (snd (AddAlternativeTextTemplate sample_pkg
      (Some greeting_text) [(''Name'', Str ''<b>World</b>'')] [] sample_Msg 0)))) =
      [''text/plain'', ''text/plain''] \<and>
   fst (AddAlternativeHTMLTemplate sample_pkg (Some greeting_html)
      [(''Name'', Str ''<b>World</b>'')] [] sample_Msg 0) = None \<and>
   map contentType (alternatives (fst (snd (AddAlternativeHTMLTemplate sample_pkg
      (Some greeting_html) [(''Name'', Str ''<b>World</b>'')] [] sample_Msg 0)))) =
      [''text/plain'', ''text/html'']"
proof -
  have t: "tt_Execute greeting_text [] [(''Name'', Str ''<b>World</b>'')] sample_Msg (0::nat) =
      ((''Hello <b>World</b>'', None), sample_Msg, 1)"
    by (simp add: greeting_text_def text_template_def evaluate_field_def)
  have h: "ht_Execute greeting_html [] [(''Name'', Str ''<b>World</b>'')] sample_Msg (0::nat) =
      ((''Hello &lt;b&gt;World&lt;/b&gt;'', None), sample_Msg, 1)"
    by (simp add: greeting_html_def html_template_def evaluate_field_def htmlEscaper_def
        htmlReplacement_def)
  have kt: "Msg_after_tt_Execute (Some greeting_text) [(''Name'', Str ''<b>World</b>'')]
      sample_Msg 0 = sample_Msg"
    by (simp add: Msg_after_tt_Execute_def t)
  have kh: "Msg_after_ht_Execute (Some greeting_html) [(''Name'', Str ''<b>World</b>'')]
      sample_Msg 0 = sample_Msg"
    by (simp add: Msg_after_ht_Execute_def h)
  have a: "map contentType (alternatives sample_Msg) = [''text/plain'']"
    by (simp add: sample_Msg_def TypeTextPlain_def)
  show ?thesis
    using content_type_fixed_by_operation [where p = sample_pkg and tt = "Some greeting_text"
        and ht = "Some greeting_html" and data = "[(''Name'', Str ''<b>World</b>'')]"
        and opts = "[]" and m = sample_Msg and w = 0]
    by (simp add: SetBodyTextTemplate_ok [OF t] SetBodyHTMLTemplate_ok [OF h]
        AddAlternativeTextTemplate_ok [OF t] AddAlternativeHTMLTemplate_ok [OF h] a kt kh)
qed

subsection \<open>C4: HTML operations run the escaping engine, text operations the raw one\<close>








subsection \<open>C5: attach and embed wrap the failure of the helper and keep its cause\<close>

text \<open>
  Claim C5. When \<open>fileFromTextTemplate\<close> or \<open>fileFromHTMLTemplate\<close> fails with
  \<open>err\<close> (the nil check, a failed \<open>Execute\<close> or a failed \<open>fileFromReader\<close>), the
  attach operations return \<open>err\<close> wrapped by the note \<^verbatim>\<open>failed to attach template\<close>
  and the embed operations return it wrapped by the note \<^verbatim>\<open>failed to embed template\<close>.
  The wrapper unwraps to \<open>err\<close> itself, and every error that \<^verbatim>\<open>errors.Is\<close> finds in
  the chain of \<open>err\<close> it also finds in the chain of the wrapper.
\<close>

theorem attach_embed_wrap_helper_failure:
  "(fileFromTextTemplate p name tt data m w = (Inl err, m', w') \<longrightarrow>
      AttachTextTemplate p name tt data fopts m w =
        (Some (fmt_Errorf ''failed to attach template: %w'' err), m', w') \<and>
      EmbedTextTemplate p name tt data fopts m w =
        (Some (fmt_Errorf ''failed to embed template: %w'' err), m', w')) \<and>
   (fileFromHTMLTemplate p name ht data m w = (Inl err, m', w') \<longrightarrow>
      AttachHTMLTemplate p name ht data fopts m w =
        (Some (fmt_Errorf ''failed to attach template: %w'' err), m', w') \<and>
      EmbedHTMLTemplate p name ht data fopts m w =
        (Some (fmt_Errorf ''failed to embed template: %w'' err), m', w')) \<and>
   Unwrap (fmt_Errorf ''failed to attach template: %w'' err) = Some err \<and>
   Unwrap (fmt_Errorf ''failed to embed template: %w'' err) = Some err \<and>
   Is (fmt_Errorf ''failed to attach template: %w'' err) err \<and>
   Is (fmt_Errorf ''failed to embed template: %w'' err) err \<and>
   (\<forall>target. Is err target \<longrightarrow>
      Is (fmt_Errorf ''failed to attach template: %w'' err) target \<and>
      Is (fmt_Errorf ''failed to embed template: %w'' err) target)"
proof (intro conjI impI allI)
  show "Unwrap (fmt_Errorf ''failed to attach template: %w'' err) = Some err"
    by (simp only: Unwrap.simps attach_note_wraps if_True)
  show "Unwrap (fmt_Errorf ''failed to embed template: %w'' err) = Some err"
    by (simp only: Unwrap.simps embed_note_wraps if_True)
  show "Is (fmt_Errorf ''failed to attach template: %w'' err) err"
    by (rule Is_wrapped [OF attach_note_wraps Is_refl])
  show "Is (fmt_Errorf ''failed to embed template: %w'' err) err"
    by (rule Is_wrapped [OF embed_note_wraps Is_refl])
next
  fix target assume "Is err target"
  then show "Is (fmt_Errorf ''failed to attach template: %w'' err) target"
    by (rule Is_wrapped [OF attach_note_wraps])
next
  fix target assume "Is err target"
  then show "Is (fmt_Errorf ''failed to embed template: %w'' err) target"
    by (rule Is_wrapped [OF embed_note_wraps])
qed (simp_all only: AttachTextTemplate_err EmbedTextTemplate_err AttachHTMLTemplate_err
    EmbedHTMLTemplate_err)

text \<open>
  The run: the greeting on data without the member \<open>Name\<close>. The helper fails with the engine's
  error wrapped by the format \<open>errTplExecuteFailed\<close>; attach and embed wrap that once
  more, each with its own note, and the engine's error is still found in the chain.
\<close>

theorem attach_embed_wrap_helper_failure_witness:
  "fileFromTextTemplate sample_pkg ''g.txt'' (Some greeting_text) [] sample_Msg 0 =
     (Inl (fmt_Errorf ''failed to execute template: %w''
        (errors_New ''can't evaluate field Name'')), sample_Msg, 1) \<and>
   fileFromHTMLTemplate sample_pkg ''g.txt'' (Some greeting_html) [] sample_Msg 0 =
     (Inl (fmt_Errorf ''failed to execute template: %w''
        (errors_New ''can't evaluate field Name'')), sample_Msg, 1) \<and>
   AttachTextTemplate sample_pkg ''g.txt'' (Some greeting_text) [] [] sample_Msg 0 =
     (Some (fmt_Errorf ''failed to attach template: %w''
        (fmt_Errorf ''failed to execute template: %w''
           (errors_New ''can't evaluate field Name''))), sample_Msg, 1) \<and>
   EmbedTextTemplate sample_pkg ''g.txt'' (Some greeting_text) [] [] sample_Msg 0 =
     (Some (fmt_Errorf ''failed to embed template: %w''
        (fmt_Errorf ''failed to execute template: %w''
           (errors_New ''can't evaluate field Name''))), sample_Msg, 1) \<and>
   AttachHTMLTemplate sample_pkg ''g.txt'' (Some greeting_html) [] [] sample_Msg 0 =
     (Some (fmt_Errorf ''failed to attach template: %w''
        (fmt_Errorf ''failed to execute template: %w''
           (errors_New ''can't evaluate field Name''))), sample_Msg, 1) \<and>
   EmbedHTMLTemplate sample_pkg ''g.txt'' (Some greeting_html) [] [] sample_Msg 0 =
     (Some (fmt_Errorf ''failed to embed template: %w''
        (fmt_Errorf ''failed to execute template: %w''
           (errors_New ''can't evaluate field Name''))), sample_Msg, 1) \<and>
   Is (fmt_Errorf ''failed to execute template: %w'' (errors_New ''can't evaluate field Name''))
      (errors_New ''can't evaluate field Name'') \<and>
   Is (fmt_Errorf ''failed to attach template: %w''
        (fmt_Errorf ''failed to execute template: %w''
           (errors_New ''can't evaluate field Name'')))
      (errors_New ''can't evaluate field Name'') \<and>
   Is (fmt_Errorf ''failed to embed template: %w''
        (fmt_Errorf ''failed to execute template: %w''
           (errors_New ''can't evaluate field Name'')))
      (errors_New ''can't evaluate field Name'')"
proof -
  note t = greeting_text_fails [of sample_Msg 0] and h = greeting_html_fails [of sample_Msg 0]
  have x: "errTplExecuteFailed sample_pkg = ''failed to execute template: %w''"
    by (simp add: sample_pkg_def)
  have ft: "fileFromTextTemplate sample_pkg ''g.txt'' (Some greeting_text) [] sample_Msg 0 =
     (Inl (fmt_Errorf ''failed to execute template: %w''
        (errors_New ''can't evaluate field Name'')), sample_Msg, 1)"
    using fileFromTextTemplate_failed [OF t, of sample_pkg "''g.txt''"] by (simp add: x)
  have fh: "fileFromHTMLTemplate sample_pkg ''g.txt'' (Some greeting_html) [] sample_Msg 0 =
     (Inl (fmt_Errorf ''failed to execute template: %w''
        (errors_New ''can't evaluate field Name'')), sample_Msg, 1)"
    using fileFromHTMLTemplate_failed [OF h, of sample_pkg "''g.txt''"] by (simp add: x)
  have c: "Is (fmt_Errorf ''failed to execute template: %w''
      (errors_New ''can't evaluate field Name'')) (errors_New ''can't evaluate field Name'')"
    by simp
  show ?thesis
    using attach_embed_wrap_helper_failure [where p = sample_pkg and name = "''g.txt''"
        and tt = "Some greeting_text" and ht = "Some greeting_html" and data = "[]" and w = 0
        and w' = 1 and fopts = "[]" and m = sample_Msg and m' = sample_Msg
        and err = "fmt_Errorf ''failed to execute template: %w''
          (errors_New ''can't evaluate field Name'')"]
      ft fh c
    by blast
qed

subsection \<open>C6: the producer writes the rendered buffer, every time\<close>

text \<open>
  Claim C6. The producer built from a rendered buffer writes exactly the buffer to
  whatever sink it is given: on two separate sinks it appends the same bytes, the
  bytes of the buffer at wrap time, and a second invocation on the same sink appends
  them once more. This is the producer that a successful \<open>SetBodyTextTemplate\<close>,
  \<open>SetBodyHTMLTemplate\<close>, \<open>AddAlternativeTextTemplate\<close> or
  \<open>AddAlternativeHTMLTemplate\<close> installs, built from what \<open>Execute\<close> wrote.
\<close>

theorem producer_rewrites_buffer:
  assumes t: "tt_Execute text [] data m w = ((tbuf, None), mt, wt)"
      and h: "ht_Execute html [] data m w = ((hbuf, None), mh, wh)"
  shows
  "writeFuncFromBuffer buffer sink = sink @ buffer \<and>
   writeFuncFromBuffer buffer sink' = sink' @ buffer \<and>
   drop (length sink) (writeFuncFromBuffer buffer sink) =
     drop (length sink') (writeFuncFromBuffer buffer sink') \<and>
   writeFuncFromBuffer buffer (writeFuncFromBuffer buffer sink) = sink @ buffer @ buffer \<and>
   map_option writeFunc (body (fst (snd (SetBodyTextTemplate p (Some text) data opts m w)))) =
     Some (writeFuncFromBuffer tbuf) \<and>
   map_option writeFunc (body (fst (snd (SetBodyHTMLTemplate p (Some html) data opts m w)))) =
     Some (writeFuncFromBuffer hbuf) \<and>
   map writeFunc (alternatives (fst (snd (AddAlternativeTextTemplate p (Some text) data opts m w)))) =
     map writeFunc (alternatives mt) @ [writeFuncFromBuffer tbuf] \<and>
   map writeFunc (alternatives (fst (snd (AddAlternativeHTMLTemplate p (Some html) data opts m w)))) =
     map writeFunc (alternatives mh) @ [writeFuncFromBuffer hbuf]"
  by (simp add: writeFuncFromBuffer_appends SetBodyTextTemplate_ok [OF t]
      SetBodyHTMLTemplate_ok [OF h] AddAlternativeTextTemplate_ok [OF t]
      AddAlternativeHTMLTemplate_ok [OF h] SetBodyWriter_body AddAlternativeWriter_alternatives)

text \<open>
  The run: the body set from the text greeting, written to an empty sink and to a sink
  that already holds a header line, gives \<open>Hello World\<close> after what was there.
\<close>

theorem producer_rewrites_buffer_witness:
  "tt_Execute greeting_text [] [(''Name'', Str ''World'')] sample_Msg 0 =
     ((''Hello World'', None), sample_Msg, 1) \<and>
   ht_Execute greeting_html [] [(''Name'', Str ''World'')] sample_Msg 0 =
     ((''Hello World'', None), sample_Msg, 1) \<and>
   map_option (\<lambda>part. (writeFunc part [], writeFunc part ''Subject: hi; ''))
     (body (fst (snd (SetBodyTextTemplate sample_pkg (Some greeting_text)
        [(''Name'', Str ''World'')] [] sample_Msg 0)))) =
     Some (''Hello World'', ''Subject: hi; Hello World'')"
proof -
  note t = greeting_text_renders [of sample_Msg 0] and h = greeting_html_renders [of sample_Msg 0]
  have a: "writeFuncFromBuffer ''Hello World'' [] = ''Hello World''"
    and b: "writeFuncFromBuffer ''Hello World'' ''Subject: hi; '' = ''Subject: hi; Hello World''"
    using producer_rewrites_buffer [OF t h, where buffer = "''Hello World''" and sink = "[]"
        and sink' = "''Subject: hi; ''"]
    by simp_all
  have c: "map_option writeFunc (body (fst (snd (SetBodyTextTemplate sample_pkg
      (Some greeting_text) [(''Name'', Str ''World'')] [] sample_Msg 0)))) =
      Some (writeFuncFromBuffer ''Hello World'')"
    using producer_rewrites_buffer [OF t h, where p = sample_pkg and opts = "[]"]
    by blast
  show ?thesis
    using a b c t h by (auto simp add: map_option_case split: option.splits)
qed

subsection \<open>C7: the body set last is the body\<close>

lemma SetBodyTextTemplate_sets_body:
  "tt_Execute t [] data m w = ((buffer, None), m', w') \<Longrightarrow>
   body (fst (snd (SetBodyTextTemplate p (Some t) data opts m w))) =
     Some \<lparr>contentType = TypeTextPlain, writeFunc = writeFuncFromBuffer buffer, partOpts = opts\<rparr>"
  by (simp add: SetBodyTextTemplate_ok SetBodyWriter_body)

lemma SetBodyHTMLTemplate_sets_body:
  "ht_Execute t [] data m w = ((buffer, None), m', w') \<Longrightarrow>
   body (fst (snd (SetBodyHTMLTemplate p (Some t) data opts m w))) =
     Some \<lparr>contentType = TypeTextHTML, writeFunc = writeFuncFromBuffer buffer, partOpts = opts\<rparr>"
  by (simp add: SetBodyHTMLTemplate_ok SetBodyWriter_body)

text \<open>
  Claim C7. Let a first set-body operation (text or HTML) succeed and give the message
  \<open>m'\<close>, which then has a body. When a second set-body operation runs on \<open>m'\<close> with
  another template whose evaluation succeeds, the primary body of the result is the one
  part built from the second render: the content type of the second operation, the
  producer of the second buffer and the second options. The body is a single slot, so
  nothing of the first render is left in it.
\<close>

theorem set_body_last_write_wins:
  assumes first:
    "SetBodyTextTemplate p tt data opts m w = (None, m', w') \<or>
     SetBodyHTMLTemplate p ht data opts m w = (None, m', w')"
  shows
  "body m' \<noteq> None \<and>
   (tt_Execute ttpl [] data' m' w' = ((tbuf, None), mt, wt) \<longrightarrow>
      body (fst (snd (SetBodyTextTemplate p (Some ttpl) data' opts' m' w'))) =
        Some \<lparr>contentType = TypeTextPlain, writeFunc = writeFuncFromBuffer tbuf,
              partOpts = opts'\<rparr>) \<and>
   (ht_Execute htpl [] data' m' w' = ((hbuf, None), mh, wh) \<longrightarrow>
      body (fst (snd (SetBodyHTMLTemplate p (Some htpl) data' opts' m' w'))) =
        Some \<lparr>contentType = TypeTextHTML, writeFunc = writeFuncFromBuffer hbuf,
              partOpts = opts'\<rparr>)"
proof (intro conjI impI)
  from first show "body m' \<noteq> None"
  proof
    assume a: "SetBodyTextTemplate p tt data opts m w = (None, m', w')"
    then have "fst (SetBodyTextTemplate p tt data opts m w) = None" by simp
    from SetBodyTextTemplate_success [OF this] a show ?thesis
      by (auto simp add: SetBodyWriter_body)
  next
    assume a: "SetBodyHTMLTemplate p ht data opts m w = (None, m', w')"
    then have "fst (SetBodyHTMLTemplate p ht data opts m w) = None" by simp
    from SetBodyHTMLTemplate_success [OF this] a show ?thesis
      by (auto simp add: SetBodyWriter_body)
  qed
next
  assume "tt_Execute ttpl [] data' m' w' = ((tbuf, None), mt, wt)"
  then show "body (fst (snd (SetBodyTextTemplate p (Some ttpl) data' opts' m' w'))) =
      Some \<lparr>contentType = TypeTextPlain, writeFunc = writeFuncFromBuffer tbuf,
            partOpts = opts'\<rparr>"
    by (rule SetBodyTextTemplate_sets_body)
next
  assume "ht_Execute htpl [] data' m' w' = ((hbuf, None), mh, wh)"
  then show "body (fst (snd (SetBodyHTMLTemplate p (Some htpl) data' opts' m' w'))) =
      Some \<lparr>contentType = TypeTextHTML, writeFunc = writeFuncFromBuffer hbuf,
            partOpts = opts'\<rparr>"
    by (rule SetBodyHTMLTemplate_sets_body)
qed

text \<open>
  The run: the HTML greeting is set as body, then the farewell. After the text farewell
  the body is plain text and writes \<open>Bye World\<close>; after the HTML farewell it is HTML
  and writes \<open>Bye World\<close>; the greeting is gone either way.
\<close>

theorem set_body_last_write_wins_witness:
  "SetBodyHTMLTemplate sample_pkg (Some greeting_html) [(''Name'', Str ''World'')] []
      sample_Msg 0 =
     (None, SetBodyWriter TypeTextHTML (writeFuncFromBuffer ''Hello World'') [] sample_Msg, 1) \<and>
   tt_Execute farewell_text [] [(''Name'', Str ''World'')]
      (SetBodyWriter TypeTextHTML (writeFuncFromBuffer ''Hello World'') [] sample_Msg) 1 =
     ((''Bye World'', None),
      SetBodyWriter TypeTextHTML (writeFuncFromBuffer ''Hello World'') [] sample_Msg, 2) \<and>
   ht_Execute farewell_html [] [(''Name'', Str ''World'')]
      (SetBodyWriter TypeTextHTML (writeFuncFromBuffer ''Hello World'') [] sample_Msg) 1 =
     ((''Bye World'', None),
      SetBodyWriter TypeTextHTML (writeFuncFromBuffer ''Hello World'') [] sample_Msg, 2) \<and>
   map_option (\<lambda>part. (contentType part, writeFunc part []))
     (body (fst (snd (SetBodyTextTemplate sample_pkg (Some farewell_text)
        [(''Name'', Str ''World'')] []
        (SetBodyWriter TypeTextHTML (writeFuncFromBuffer ''Hello World'') [] sample_Msg) 1)))) =
     Some (''text/plain'', ''Bye World'') \<and>
   map_option (\<lambda>part. (contentType part, writeFunc part []))
     (body (fst (snd (SetBodyHTMLTemplate sample_pkg (Some farewell_html)
        [(''Name'', Str ''World'')] []
        (SetBodyWriter TypeTextHTML (writeFuncFromBuffer ''Hello World'') [] sample_Msg) 1)))) =
     Some (''text/html'', ''Bye World'')"
proof -
  note g = greeting_html_renders [of sample_Msg 0]
  have t: "tt_Execute farewell_text [] [(''Name'', Str ''World'')] m' (1::nat) =
      ((''Bye World'', None), m', 2)" for m'
    by (simp add: farewell_text_def text_template_def evaluate_field_def)
  have h: "ht_Execute farewell_html [] [(''Name'', Str ''World'')] m' (1::nat) =
      ((''Bye World'', None), m', 2)" for m'
    by (simp add: farewell_html_def html_template_def evaluate_field_def htmlEscaper_def
        htmlReplacement_def)
  note first = SetBodyHTMLTemplate_ok [OF g, of sample_pkg "[]"]
  have "SetBodyTextTemplate sample_pkg None [(''Name'', Str ''World'')] [] sample_Msg 0 =
      (None, SetBodyWriter TypeTextHTML (writeFuncFromBuffer ''Hello World'') [] sample_Msg, 1) \<or>
    SetBodyHTMLTemplate sample_pkg (Some greeting_html) [(''Name'', Str ''World'')] [] sample_Msg 0 =
      (None, SetBodyWriter TypeTextHTML (writeFuncFromBuffer ''Hello World'') [] sample_Msg, 1)"
    using first by simp
  from set_body_last_write_wins [OF this, where ttpl = farewell_text and htpl = farewell_html
      and data' = "[(''Name'', Str ''World'')]" and opts' = "[]" and tbuf = "''Bye World''"
      and hbuf = "''Bye World''" and wt = 2 and wh = 2
      and mt = "SetBodyWriter TypeTextHTML (writeFuncFromBuffer ''Hello World'') [] sample_Msg"
      and mh = "SetBodyWriter TypeTextHTML (writeFuncFromBuffer ''Hello World'') [] sample_Msg"]
  show ?thesis
    using first t h
    by (simp add: TypeTextPlain_def TypeTextHTML_def writeFuncFromBuffer_appends)
qed

subsection \<open>C8: the greeting scenario\<close>

text \<open>
  Claim C8. Rendering the text template \<^verbatim>\<open>Hello {{.Name}}\<close> with the data
  \<^verbatim>\<open>{Name: "World"}\<close> through \<open>SetBodyTextTemplate\<close> returns no error and leaves
  the message with a primary body of content type \<open>text/plain\<close> whose producer
  writes exactly the bytes \<open>Hello World\<close> to the sink it is given. The template is
  the text engine fragment's parsed form of that text.
\<close>

theorem hello_world_body:
  "fst (SetBodyTextTemplate p (Some greeting_text) [(''Name'', Str ''World'')] opts m calls) =
     None \<and>
   body (fst (snd (SetBodyTextTemplate p (Some greeting_text) [(''Name'', Str ''World'')] opts m
      calls))) =
     Some \<lparr>contentType = ''text/plain'', writeFunc = writeFuncFromBuffer ''Hello World'',
           partOpts = opts\<rparr> \<and>
   writeFuncFromBuffer ''Hello World'' sink = sink @ ''Hello World''"
  by (simp add: SetBodyTextTemplate_ok [OF greeting_text_renders] SetBodyWriter_body
      TypeTextPlain_def writeFuncFromBuffer_appends)

text \<open>
  The run: on the sample message, whose old body was HTML, the body becomes a
  plain-text part that writes \<open>Hello World\<close> into an empty sink.
\<close>

theorem hello_world_body_witness:
  "fst (SetBodyTextTemplate sample_pkg (Some greeting_text) [(''Name'', Str ''World'')] []
      sample_Msg 0) = None \<and>
   map_option (\<lambda>part. (contentType part, writeFunc part []))
     (body (fst (snd (SetBodyTextTemplate sample_pkg (Some greeting_text)
        [(''Name'', Str ''World'')] [] sample_Msg 0)))) = Some (''text/plain'', ''Hello World'')"
  using hello_world_body [where p = sample_pkg and opts = "[]" and m = sample_Msg
      and calls = 0 and sink = "[]"]
  by simp

subsection \<open>C9: attach and embed append one File and touch nothing else themselves\<close>

lemma attachments_frame:
  "m'' = m'\<lparr>attachments := attachments m' @ [f]\<rparr> \<Longrightarrow> m' = m \<Longrightarrow>
   attachments m'' = attachments m @ [f] \<and> embeds m'' = embeds m \<and> body m'' = body m \<and>
   alternatives m'' = alternatives m"
  by simp

lemma embeds_frame:
  "m'' = m'\<lparr>embeds := embeds m' @ [f]\<rparr> \<Longrightarrow> m' = m \<Longrightarrow>
   embeds m'' = embeds m @ [f] \<and> attachments m'' = attachments m \<and> body m'' = body m \<and>
   alternatives m'' = alternatives m"
  by simp

text \<open>
  As C9 is written, for every successful call, it does not hold. The greeting is
  attached with data whose method \<^verbatim>\<open>Name\<close> changes the message and returns
  \<open>World\<close>: the call returns \<^verbatim>\<open>nil\<close>, and the embeds and the body are not the old
  ones, and the attachments have grown by two files, the method's and the rendered one.
\<close>

theorem attach_with_meddling_data_changes_other_parts:
  "fst (AttachTextTemplate sample_pkg ''g.txt'' (Some greeting_text) meddling_data []
      sample_Msg 0) = None \<and>
   embeds (fst (snd (AttachTextTemplate sample_pkg ''g.txt'' (Some greeting_text) meddling_data []
      sample_Msg 0))) \<noteq> embeds sample_Msg \<and>
   body (fst (snd (AttachTextTemplate sample_pkg ''g.txt'' (Some greeting_text) meddling_data []
      sample_Msg 0))) \<noteq> body sample_Msg \<and>
   map Name (attachments (fst (snd (AttachTextTemplate sample_pkg ''g.txt'' (Some greeting_text)
      meddling_data [] sample_Msg 0)))) = [''a.txt'', ''x.bin'', ''g.txt''] \<and>
   map Name (attachments sample_Msg) = [''a.txt'']"
proof -
  have t: "tt_Execute greeting_text [] meddling_data sample_Msg (0::nat) =
      ((''Hello World'', None), meddle sample_Msg, 1)"
    by (simp add: greeting_text_def text_template_def evaluate_field_def meddling_data_def)
  have r: "fileFromReader sample_pkg ''g.txt'' ''Hello World'' =
      Inr \<lparr>Name = ''g.txt'', Writer = writeFuncFromBuffer ''Hello World'', fileOpts = []\<rparr>"
    by (simp add: sample_pkg_def)
  note f = fileFromTextTemplate_ok [OF t, of sample_pkg "''g.txt''", unfolded r]
  have b: "body (meddle sample_Msg) \<noteq> body sample_Msg"
    by (simp add: meddle_def SetBodyWriter_def sample_Msg_def TypeTextPlain_def TypeTextHTML_def)
  have e: "embeds (meddle sample_Msg) \<noteq> embeds sample_Msg"
    by (simp add: meddle_def appendFile_def sample_Msg_def)
  have a: "map Name (attachments (meddle sample_Msg)) = [''a.txt'', ''x.bin'']"
    by (simp add: meddle_def appendFile_def sample_Msg_def)
  have s: "map Name (attachments sample_Msg) = [''a.txt'']"
    by (simp add: sample_Msg_def)
  show ?thesis
    by (simp add: AttachTextTemplate_ok [OF f] appendFile_def a b e s)
qed

text \<open>
  Claim C9, amended. On every successful call in which \<open>Execute\<close> leaves the message
  as it was (the methods of the data do not change it), \<open>AttachTextTemplate\<close> and
  \<open>AttachHTMLTemplate\<close> leave a message whose attachments are the old attachments
  followed by exactly one File, and whose embeds, primary body and alternatives are the
  old ones. \<open>EmbedTextTemplate\<close> and \<open>EmbedHTMLTemplate\<close> do the same with the roles
  of attachments and embeds exchanged.
\<close>

theorem attach_embed_append_one_File:
  assumes kt: "Msg_after_tt_Execute tt data m w = m"
      and kh: "Msg_after_ht_Execute ht data m w = m"
  shows
  "(fst (AttachTextTemplate p name tt data opts m w) = None \<longrightarrow>
      (\<exists>file. attachments (fst (snd (AttachTextTemplate p name tt data opts m w))) =
         attachments m @ [file]) \<and>
      embeds (fst (snd (AttachTextTemplate p name tt data opts m w))) = embeds m \<and>
      body (fst (snd (AttachTextTemplate p name tt data opts m w))) = body m \<and>
      alternatives (fst (snd (AttachTextTemplate p name tt data opts m w))) = alternatives m) \<and>
   (fst (AttachHTMLTemplate p name ht data opts m w) = None \<longrightarrow>
      (\<exists>file. attachments (fst (snd (AttachHTMLTemplate p name ht data opts m w))) =
         attachments m @ [file]) \<and>
      embeds (fst (snd (AttachHTMLTemplate p name ht data opts m w))) = embeds m \<and>
      body (fst (snd (AttachHTMLTemplate p name ht data opts m w))) = body m \<and>
      alternatives (fst (snd (AttachHTMLTemplate p name ht data opts m w))) = alternatives m) \<and>
   (fst (EmbedTextTemplate p name tt data opts m w) = None \<longrightarrow>
      (\<exists>file. embeds (fst (snd (EmbedTextTemplate p name tt data opts m w))) =
         embeds m @ [file]) \<and>
      attachments (fst (snd (EmbedTextTemplate p name tt data opts m w))) = attachments m \<and>
      body (fst (snd (EmbedTextTemplate p name tt data opts m w))) = body m \<and>
      alternatives (fst (snd (EmbedTextTemplate p name tt data opts m w))) = alternatives m) \<and>
   (fst (EmbedHTMLTemplate p name ht data opts m w) = None \<longrightarrow>
      (\<exists>file. embeds (fst (snd (EmbedHTMLTemplate p name ht data opts m w))) =
         embeds m @ [file]) \<and>
      attachments (fst (snd (EmbedHTMLTemplate p name ht data opts m w))) = attachments m \<and>
      body (fst (snd (EmbedHTMLTemplate p name ht data opts m w))) = body m \<and>
      alternatives (fst (snd (EmbedHTMLTemplate p name ht data opts m w))) = alternatives m)"
proof -
  have at: "fst (AttachTextTemplate p name tt data opts m w) = None \<longrightarrow>
      (\<exists>file. attachments (fst (snd (AttachTextTemplate p name tt data opts m w))) =
         attachments m @ [file]) \<and>
      embeds (fst (snd (AttachTextTemplate p name tt data opts m w))) = embeds m \<and>
      body (fst (snd (AttachTextTemplate p name tt data opts m w))) = body m \<and>
      alternatives (fst (snd (AttachTextTemplate p name tt data opts m w))) = alternatives m"
    using AttachTextTemplate_appends [of p name tt data opts m w] attachments_frame [OF _ kt]
    by blast
  have ah: "fst (AttachHTMLTemplate p name ht data opts m w) = None \<longrightarrow>
      (\<exists>file. attachments (fst (snd (AttachHTMLTemplate p name ht data opts m w))) =
         attachments m @ [file]) \<and>
      embeds (fst (snd (AttachHTMLTemplate p name ht data opts m w))) = embeds m \<and>
      body (fst (snd (AttachHTMLTemplate p name ht data opts m w))) = body m \<and>
      alternatives (fst (snd (AttachHTMLTemplate p name ht data opts m w))) = alternatives m"
    using AttachHTMLTemplate_appends [of p name ht data opts m w] attachments_frame [OF _ kh]
    by blast
  have et: "fst (EmbedTextTemplate p name tt data opts m w) = None \<longrightarrow>
      (\<exists>file. embeds (fst (snd (EmbedTextTemplate p name tt data opts m w))) =
         embeds m @ [file]) \<and>
      attachments (fst (snd (EmbedTextTemplate p name tt data opts m w))) = attachments m \<and>
      body (fst (snd (EmbedTextTemplate p name tt data opts m w))) = body m \<and>
      alternatives (fst (snd (EmbedTextTemplate p name tt data opts m w))) = alternatives m"
    using EmbedTextTemplate_appends [of p name tt data opts m w] embeds_frame [OF _ kt]
    by blast
  have eh: "fst (EmbedHTMLTemplate p name ht data opts m w) = None \<longrightarrow>
      (\<exists>file. embeds (fst (snd (EmbedHTMLTemplate p name ht data opts m w))) =
         embeds m @ [file]) \<and>
      attachments (fst (snd (EmbedHTMLTemplate p name ht data opts m w))) = attachments m \<and>
      body (fst (snd (EmbedHTMLTemplate p name ht data opts m w))) = body m \<and>
      alternatives (fst (snd (EmbedHTMLTemplate p name ht data opts m w))) = alternatives m"
    using EmbedHTMLTemplate_appends [of p name ht data opts m w] embeds_frame [OF _ kh]
    by blast
  from at ah et eh show ?thesis by (intro conjI)
qed

text \<open>
  The run: the greeting attached and embedded on the sample message, which has one
  attachment and one embed, with a string field as data. Attaching gives two
  attachments and still one embed, embedding gives two embeds and still one attachment;
  body and alternatives stay.
\<close>

theorem attach_embed_append_one_File_witness:
  "Msg_after_tt_Execute (Some greeting_text) [(''Name'', Str ''World'')] sample_Msg 0 =
     sample_Msg \<and>
   Msg_after_ht_Execute (Some greeting_html) [(''Name'', Str ''World'')] sample_Msg 0 =
     sample_Msg \<and>
   fst (AttachTextTemplate sample_pkg ''g.txt'' (Some greeting_text) [(''Name'', Str ''World'')] []
      sample_Msg 0) = None \<and>
   fst (AttachHTMLTemplate sample_pkg ''g.txt'' (Some greeting_html) [(''Name'', Str ''World'')] []
      sample_Msg 0) = None \<and>
   fst (EmbedTextTemplate sample_pkg ''g.txt'' (Some greeting_text) [(''Name'', Str ''World'')] []
      sample_Msg 0) = None \<and>
   fst (EmbedHTMLTemplate sample_pkg ''g.txt'' (Some greeting_html) [(''Name'', Str ''World'')] []
      sample_Msg 0) = None \<and>
   map Name (attachments (fst (snd (AttachTextTemplate sample_pkg ''g.txt'' (Some greeting_text)
      [(''Name'', Str ''World'')] [] sample_Msg 0)))) = [''a.txt'', ''g.txt''] \<and>
   embeds (fst (snd (AttachTextTemplate sample_pkg ''g.txt'' (Some greeting_text)
      [(''Name'', Str ''World'')] [] sample_Msg 0))) = embeds sample_Msg \<and>
   body (fst (snd (AttachTextTemplate sample_pkg ''g.txt'' (Some greeting_text)
      [(''Name'', Str ''World'')] [] sample_Msg 0))) = body sample_Msg \<and>
   alternatives (fst (snd (AttachTextTemplate sample_pkg ''g.txt'' (Some greeting_text)
      [(''Name'', Str ''World'')] [] sample_Msg 0))) = alternatives sample_Msg \<and>
   embeds (fst (snd (AttachHTMLTemplate sample_pkg ''g.txt'' (Some greeting_html)
      [(''Name'', Str ''World'')] [] sample_Msg 0))) = embeds sample_Msg \<and>
   map Name (embeds (fst (snd (EmbedHTMLTemplate sample_pkg ''g.txt'' (Some greeting_html)
      [(''Name'', Str ''World'')] [] sample_Msg 0)))) = [''e.png'', ''g.txt''] \<and>
   attachments (fst (snd (EmbedHTMLTemplate sample_pkg ''g.txt'' (Some greeting_html)
      [(''Name'', Str ''World'')] [] sample_Msg 0))) = attachments sample_Msg \<and>
   attachments (fst (snd (EmbedTextTemplate sample_pkg ''g.txt'' (Some greeting_text)
      [(''Name'', Str ''World'')] [] sample_Msg 0))) = attachments sample_Msg"
proof -
  note t = greeting_text_renders [of sample_Msg 0] and h = greeting_html_renders [of sample_Msg 0]
  have kt: "Msg_after_tt_Execute (Some greeting_text) [(''Name'', Str ''World'')] sample_Msg 0 =
      sample_Msg"
    by (simp add: Msg_after_tt_Execute_def t)
  have kh: "Msg_after_ht_Execute (Some greeting_html) [(''Name'', Str ''World'')] sample_Msg 0 =
      sample_Msg"
    by (simp add: Msg_after_ht_Execute_def h)
  have r: "fileFromReader sample_pkg ''g.txt'' ''Hello World'' =
      Inr \<lparr>Name = ''g.txt'', Writer = writeFuncFromBuffer ''Hello World'', fileOpts = []\<rparr>"
    by (simp add: sample_pkg_def)
  note ft = fileFromTextTemplate_ok [OF t, of sample_pkg "''g.txt''", unfolded r]
    and fh = fileFromHTMLTemplate_ok [OF h, of sample_pkg "''g.txt''", unfolded r]
  note ok = AttachTextTemplate_ok [OF ft] AttachHTMLTemplate_ok [OF fh]
    EmbedTextTemplate_ok [OF ft] EmbedHTMLTemplate_ok [OF fh]
  have na: "map Name (attachments sample_Msg) = [''a.txt'']"
    and ne: "map Name (embeds sample_Msg) = [''e.png'']"
    by (simp_all add: sample_Msg_def)
  show ?thesis
    using attach_embed_append_one_File [OF kt kh, where p = sample_pkg and name = "''g.txt''"
        and opts = "[]"]
    by (simp add: kt kh ok appendFile_def na ne)
qed

subsection \<open>C10: after a successful render only attach and embed can still fail\<close>

text \<open>
  Claim C10. For a template that is not nil and data on which \<open>Execute\<close> succeeds,
  \<open>SetBodyTextTemplate\<close>, \<open>SetBodyHTMLTemplate\<close>, \<open>AddAlternativeTextTemplate\<close>
  and \<open>AddAlternativeHTMLTemplate\<close> return \<^verbatim>\<open>nil\<close>. The attach and embed operations
  have one more step after the render: when \<open>fileFromReader\<close> fails on the rendered
  buffer they return its error wrapped, and when it succeeds they return \<^verbatim>\<open>nil\<close>
  too.
\<close>

theorem no_failure_after_render_for_body_and_alternative:
  "(tt_Execute ttpl [] data m w = ((tbuf, None), mt, wt) \<longrightarrow>
      fst (SetBodyTextTemplate p (Some ttpl) data popts m w) = None \<and>
      fst (AddAlternativeTextTemplate p (Some ttpl) data popts m w) = None \<and>
      fst (AttachTextTemplate p name (Some ttpl) data fopts m w) =
        (case fileFromReader p name tbuf of
           Inl err \<Rightarrow> Some (fmt_Errorf ''failed to attach template: %w'' err)
         | Inr file \<Rightarrow> None) \<and>
      fst (EmbedTextTemplate p name (Some ttpl) data fopts m w) =
        (case fileFromReader p name tbuf of
           Inl err \<Rightarrow> Some (fmt_Errorf ''failed to embed template: %w'' err)
         | Inr file \<Rightarrow> None)) \<and>
   (ht_Execute htpl [] data m w = ((hbuf, None), mh, wh) \<longrightarrow>
      fst (SetBodyHTMLTemplate p (Some htpl) data popts m w) = None \<and>
      fst (AddAlternativeHTMLTemplate p (Some htpl) data popts m w) = None \<and>
      fst (AttachHTMLTemplate p name (Some htpl) data fopts m w) =
        (case fileFromReader p name hbuf of
           Inl err \<Rightarrow> Some (fmt_Errorf ''failed to attach template: %w'' err)
         | Inr file \<Rightarrow> None) \<and>
      fst (EmbedHTMLTemplate p name (Some htpl) data fopts m w) =
        (case fileFromReader p name hbuf of
           Inl err \<Rightarrow> Some (fmt_Errorf ''failed to embed template: %w'' err)
         | Inr file \<Rightarrow> None))"
proof (intro conjI impI)
  assume t: "tt_Execute ttpl [] data m w = ((tbuf, None), mt, wt)"
  note f = fileFromTextTemplate_ok [OF t, of p name]
  show "fst (SetBodyTextTemplate p (Some ttpl) data popts m w) = None"
    by (simp add: SetBodyTextTemplate_ok [OF t])
  show "fst (AddAlternativeTextTemplate p (Some ttpl) data popts m w) = None"
    by (simp add: AddAlternativeTextTemplate_ok [OF t])
  show "fst (AttachTextTemplate p name (Some ttpl) data fopts m w) =
      (case fileFromReader p name tbuf of
         Inl err \<Rightarrow> Some (fmt_Errorf ''failed to attach template: %w'' err)
       | Inr file \<Rightarrow> None)"
    by (simp add: AttachTextTemplate_def f split: sum.splits)
  show "fst (EmbedTextTemplate p name (Some ttpl) data fopts m w) =
      (case fileFromReader p name tbuf of
         Inl err \<Rightarrow> Some (fmt_Errorf ''failed to embed template: %w'' err)
       | Inr file \<Rightarrow> None)"
    by (simp add: EmbedTextTemplate_def f split: sum.splits)
next
  assume h: "ht_Execute htpl [] data m w = ((hbuf, None), mh, wh)"
  note f = fileFromHTMLTemplate_ok [OF h, of p name]
  show "fst (SetBodyHTMLTemplate p (Some htpl) data popts m w) = None"
    by (simp add: SetBodyHTMLTemplate_ok [OF h])
  show "fst (AddAlternativeHTMLTemplate p (Some htpl) data popts m w) = None"
    by (simp add: AddAlternativeHTMLTemplate_ok [OF h])
  show "fst (AttachHTMLTemplate p name (Some htpl) data fopts m w) =
      (case fileFromReader p name hbuf of
         Inl err \<Rightarrow> Some (fmt_Errorf ''failed to attach template: %w'' err)
       | Inr file \<Rightarrow> None)"
    by (simp add: AttachHTMLTemplate_def f split: sum.splits)
  show "fst (EmbedHTMLTemplate p name (Some htpl) data fopts m w) =
      (case fileFromReader p name hbuf of
         Inl err \<Rightarrow> Some (fmt_Errorf ''failed to embed template: %w'' err)
       | Inr file \<Rightarrow> None)"
    by (simp add: EmbedHTMLTemplate_def f split: sum.splits)
qed

text \<open>
  The run: the greeting renders, and the package's \<open>fileFromReader\<close> rejects every
  content. The body and alternative operations succeed; attach and embed fail with the
  rejection wrapped, after \<open>Execute\<close> has succeeded.
\<close>

theorem no_failure_after_render_for_body_and_alternative_witness:
  "tt_Execute greeting_text [] [(''Name'', Str ''World'')] sample_Msg 0 =
     ((''Hello World'', None), sample_Msg, 1) \<and>
   ht_Execute greeting_html [] [(''Name'', Str ''World'')] sample_Msg 0 =
     ((''Hello World'', None), sample_Msg, 1) \<and>
   fst (SetBodyTextTemplate rejecting_pkg (Some greeting_text) [(''Name'', Str ''World'')] []
      sample_Msg 0) = None \<and>
   fst (AddAlternativeTextTemplate rejecting_pkg (Some greeting_text) [(''Name'', Str ''World'')] []
      sample_Msg 0) = None \<and>
   fst (SetBodyHTMLTemplate rejecting_pkg (Some greeting_html) [(''Name'', Str ''World'')] []
      sample_Msg 0) = None \<and>
   fst (AddAlternativeHTMLTemplate rejecting_pkg (Some greeting_html) [(''Name'', Str ''World'')] []
      sample_Msg 0) = None \<and>
   fst (AttachTextTemplate rejecting_pkg ''g.txt'' (Some greeting_text) [(''Name'', Str ''World'')] []
      sample_Msg 0) = Some (fmt_Errorf ''failed to attach template: %w'' (errors_New ''rejected'')) \<and>
   fst (EmbedTextTemplate rejecting_pkg ''g.txt'' (Some greeting_text) [(''Name'', Str ''World'')] []
      sample_Msg 0) = Some (fmt_Errorf ''failed to embed template: %w'' (errors_New ''rejected'')) \<and>
   fst (AttachHTMLTemplate rejecting_pkg ''g.txt'' (Some greeting_html) [(''Name'', Str ''World'')] []
      sample_Msg 0) = Some (fmt_Errorf ''failed to attach template: %w'' (errors_New ''rejected'')) \<and>
   fst (EmbedHTMLTemplate rejecting_pkg ''g.txt'' (Some greeting_html) [(''Name'', Str ''World'')] []
      sample_Msg 0) = Some (fmt_Errorf ''failed to embed template: %w'' (errors_New ''rejected''))"
proof -
  note t = greeting_text_renders [of sample_Msg 0] and h = greeting_html_renders [of sample_Msg 0]
  have r: "fileFromReader rejecting_pkg ''g.txt'' ''Hello World'' = Inl (errors_New ''rejected'')"
    by (simp add: rejecting_pkg_def)
  show ?thesis
    using no_failure_after_render_for_body_and_alternative [where p = rejecting_pkg
        and ttpl = greeting_text and htpl = greeting_html and data = "[(''Name'', Str ''World'')]"
        and w = 0 and tbuf = "''Hello World''" and hbuf = "''Hello World''" and wt = 1
        and wh = 1 and popts = "[]" and fopts = "[]" and m = sample_Msg and name = "''g.txt''"
        and mt = sample_Msg and mh = sample_Msg]
    by (simp add: t h r)
qed

end
